theory Spec2Isabelle
  imports Main "HOL-Library.Word"
begin

section \<open>Shared data: errors, effects, token records\<close>

text \<open>
  Every \<^verbatim>\<open>throw\<close> and every rejected promise of the TypeScript source is a value
  \<open>Inl err\<close> of a result type \<open>error + 'a\<close>. The two errors that \<^verbatim>\<open>getTokenInfo\<close>
  raises itself keep their message as constructor name; \<open>EMPTY_CONNECTION\<close> is the message
  constant of \<^verbatim>\<open>common/error\<close>; \<open>Module_not_working\<close> is what
  \<^verbatim>\<open>checkDisabled\<close> of the module base class raises; \<open>Rejected\<close> is any exception
  raised by a collaborator (HTTP transport, RPC client, key or layout library), with its message.
  The collaborators have a type of their own for what they raise, so none of them can raise
  one of the client's own errors.
\<close>

datatype rejection = Rejection string

datatype error =
    Error_please_input_mint
  | Error_mint_address_not_found string
  | EMPTY_CONNECTION
  | Module_not_working
  | Rejected rejection

text \<open>
  Calls to collaborators are observable effects. The world outside the client is a value of an
  arbitrary type \<open>'w\<close> that every collaborator call may change; next to it runs a log of the
  calls made, in order, so that "no fetch was issued" and "the API was asked before the ledger"
  are statements about the log.
\<close>

datatype event =
    GetJupTokenList
  | GetTokenInfo "string list"
  | GetAccountInfo string
  | GetEpochInfo
  | Invoke string
  | Sleep int

type_synonym 'w traced = "'w \<times> event list"

type_synonym byte = "8 word"

text \<open>\<^verbatim>\<open>api/type.ts\<close>: \<^verbatim>\<open>TransferFeeDataBaseType\<close>, \<^verbatim>\<open>ExtensionsItem\<close>, \<^verbatim>\<open>ApiV3Token\<close>.\<close>

record transferFee =
  epoch :: string
  maximumFee :: string
  transferFeeBasisPoints :: int

record transferFeeDataBaseType =
  transferFeeConfigAuthority :: string
  withdrawWithheldAuthority :: string
  withheldAmount :: string
  olderTransferFee :: transferFee
  newerTransferFee :: transferFee

record extensionsItem =
  coingeckoId :: "string option"
  feeConfig :: "transferFeeDataBaseType option"

text \<open>
  One record type serves \<^verbatim>\<open>ApiV3Token\<close> and \<^verbatim>\<open>TokenInfo\<close> (the former plus the
  optional \<open>priority\<close> and \<open>type\<close>). \<open>programId\<close> is declared a string, but the source tests
  it with \<^verbatim>\<open>??\<close> and \<^verbatim>\<open>||\<close>, so a record from the network may lack it: \<open>None\<close> is
  \<^verbatim>\<open>undefined\<close>.
\<close>

record token =
  chainId :: int
  address :: string
  programId :: "string option"
  logoURI :: string
  symbol :: string
  name :: string
  decimals :: int
  tags :: "string list"
  extensions :: extensionsItem
  priority :: "int option"
  type :: "string option"

text \<open>The two program identifiers of \<^verbatim>\<open>@solana/spl-token\<close>, in base 58.\<close>

definition TOKEN_PROGRAM_ID :: string where
  "TOKEN_PROGRAM_ID = ''TokenkegQfeZyiNwAJbNbGKPFXCWuBvf9Ss623VQ5DA''"

definition TOKEN_2022_PROGRAM_ID :: string where
  "TOKEN_2022_PROGRAM_ID = ''TokenzQdBNbLqP5VEhdkAS6EPFLC1PHnBqCXEpPxuEb''"

text \<open>What \<^verbatim>\<open>@solana/web3.js\<close> hands back: an account and the epoch information.\<close>

record accountInfo =
  account_data :: "byte list"
  owner :: string

record epochInfoValue =
  absoluteSlot :: nat
  slotIndex :: nat
  slotsInEpoch :: nat

text \<open>
  The collaborators, as the objects the client holds: the HTTP API and the RPC connection.
  \<open>getTokenInfo_api\<close> is \<^verbatim>\<open>Api.getTokenInfo\<close>, renamed apart from the method of the token
  module.
\<close>

record 'w Api =
  getJupTokenList :: "'w \<Rightarrow> (rejection + token list) \<times> 'w"
  getTokenInfo_api :: "string list \<Rightarrow> 'w \<Rightarrow> (rejection + token option list) \<times> 'w"

record 'w Connection =
  getAccountInfo :: "string \<Rightarrow> 'w \<Rightarrow> (rejection + accountInfo option) \<times> 'w"
  getEpochInfo :: "'w \<Rightarrow> (rejection + epochInfoValue) \<times> 'w"

text \<open>
  What the source imports from files outside \<^verbatim>\<open>src/\<close> or from libraries, taken as
  parameters: the constant \<^verbatim>\<open>SOL_INFO\<close> of \<^verbatim>\<open>token/constant\<close>, the clock, the timer
  \<^verbatim>\<open>sleep\<close> of \<^verbatim>\<open>common\<close>, the constructor of \<^verbatim>\<open>PublicKey\<close> (it rejects a string
  that is not a key) and \<^verbatim>\<open>MintLayout.decode\<close> (reduced to the one field the source reads,
  \<open>decimals\<close>).
\<close>

record 'w env =
  SOL_INFO :: token
  Date_now :: "'w \<Rightarrow> int"
  sleep :: "int \<Rightarrow> 'w \<Rightarrow> 'w"
  new_PublicKey :: "string \<Rightarrow> rejection + string"
  MintLayout_decode :: "byte list \<Rightarrow> rejection + int"

section \<open>\<^verbatim>\<open>gfx/client.ts\<close>: the client and its two caches\<close>

record 'a DataBase =
  fetched :: int
  data :: 'a

record ApiData =
  jupTokenList :: "token list DataBase option"

record epochInfoCache =
  epoch_fetched :: int
  epoch_value :: epochInfoValue

text \<open>
  The fields of \<^verbatim>\<open>ClientConstructorParams\<close> that the caches read. Both interval options are
  kept, since the documentation of the first one describes the cache policy and the
  constructor reads the second one.
\<close>

record 'w ClientConstructorParams =
  cfg_connection :: "'w Connection option"
  cfg_api :: "'w Api"
  apiRequestInterval :: "int option"
  apiCacheTime :: "int option"

text \<open>
  The fields of \<^verbatim>\<open>GfxCpmmClient\<close> that the caches and the token module use. The private
  fields \<^verbatim>\<open>_connection\<close>, \<^verbatim>\<open>_apiCacheTime\<close> and \<^verbatim>\<open>_epochInfo\<close> carry the suffix
  \<open>_field\<close> in place of the underscore.
\<close>

record 'w GfxCpmmClient =
  apiData :: ApiData
  connection_field :: "'w Connection option"
  api :: "'w Api"
  apiCacheTime_field :: int
  epochInfo_field :: "epochInfoCache option"

text \<open>\<^verbatim>\<open>a || b\<close> on numbers: \<open>undefined\<close> and \<open>0\<close> are falsy.\<close>

definition or_number :: "int option \<Rightarrow> int \<Rightarrow> int" where
  "or_number a b = (case a of None \<Rightarrow> b | Some x \<Rightarrow> if x = 0 then b else x)"

definition new_GfxCpmmClient :: "'w ClientConstructorParams \<Rightarrow> 'w GfxCpmmClient" where
  "new_GfxCpmmClient config =
     \<lparr> apiData = \<lparr> jupTokenList = None \<rparr>,
       connection_field = cfg_connection config,
       api = cfg_api config,
       apiCacheTime_field = or_number (apiCacheTime config) (5 * 60 * 1000),
       epochInfo_field = None \<rparr>"

text \<open>The getter \<^verbatim>\<open>connection\<close>, which throws when no connection is set.\<close>

definition connection :: "'w GfxCpmmClient \<Rightarrow> error + 'w Connection" where
  "connection c = (case connection_field c of None \<Rightarrow> Inl EMPTY_CONNECTION | Some conn \<Rightarrow> Inr conn)"

definition isCacheInvalidate :: "'w env \<Rightarrow> 'w GfxCpmmClient \<Rightarrow> int \<Rightarrow> 'w \<Rightarrow> bool" where
  "isCacheInvalidate e c time w = (Date_now e w - time > apiCacheTime_field c)"

text \<open>The \<^verbatim>\<open>try\<close> block of \<^verbatim>\<open>fetchJupTokenList\<close> with its \<^verbatim>\<open>catch\<close>.\<close>

definition fetchJupTokenList_try ::
  "'w env \<Rightarrow> 'w GfxCpmmClient \<Rightarrow> 'w traced \<Rightarrow> (error + token list) \<times> 'w GfxCpmmClient \<times> 'w traced" where
  "fetchJupTokenList_try e c wt =
     (case getJupTokenList (api c) (fst wt) of
        (Inr jupList, w') \<Rightarrow>
          (let c' = c\<lparr> apiData := (apiData c)\<lparr> jupTokenList :=
                       Some \<lparr> fetched = Date_now e w', data = jupList \<rparr> \<rparr> \<rparr>
           in (Inr jupList, c', (w', snd wt @ [GetJupTokenList])))
      | (Inl err, w') \<Rightarrow> (Inr [], c, (w', snd wt @ [GetJupTokenList])))"

definition fetchJupTokenList ::
  "'w env \<Rightarrow> bool \<Rightarrow> 'w GfxCpmmClient \<Rightarrow> 'w traced \<Rightarrow> (error + token list) \<times> 'w GfxCpmmClient \<times> 'w traced" where
  "fetchJupTokenList e forceUpdate c wt =
     (case jupTokenList (apiData c) of
        Some prevFetched \<Rightarrow>
          if \<not> isCacheInvalidate e c (fetched prevFetched) (fst wt) \<and> \<not> forceUpdate
          then (Inr (data prevFetched), c, wt)
          else fetchJupTokenList_try e c wt
      | None \<Rightarrow> fetchJupTokenList_try e c wt)"

text \<open>
  \<^verbatim>\<open>fetchEpochInfo\<close>. The object literal reads the clock before it awaits the RPC call, and
  the field is assigned only when the call has returned.
\<close>

definition fetchEpochInfo_refresh ::
  "'w env \<Rightarrow> 'w GfxCpmmClient \<Rightarrow> 'w traced \<Rightarrow> (error + epochInfoValue) \<times> 'w GfxCpmmClient \<times> 'w traced" where
  "fetchEpochInfo_refresh e c wt =
     (let now = Date_now e (fst wt) in
      case connection c of
        Inl err \<Rightarrow> (Inl err, c, wt)
      | Inr conn \<Rightarrow>
          (case getEpochInfo conn (fst wt) of
             (Inl err, w') \<Rightarrow> (Inl (Rejected err), c, (w', snd wt @ [GetEpochInfo]))
           | (Inr v, w') \<Rightarrow>
               (Inr v, c\<lparr> epochInfo_field := Some \<lparr> epoch_fetched = now, epoch_value = v \<rparr> \<rparr>,
                (w', snd wt @ [GetEpochInfo]))))"

definition fetchEpochInfo ::
  "'w env \<Rightarrow> 'w GfxCpmmClient \<Rightarrow> 'w traced \<Rightarrow> (error + epochInfoValue) \<times> 'w GfxCpmmClient \<times> 'w traced" where
  "fetchEpochInfo e c wt =
     (case epochInfo_field c of
        Some ep \<Rightarrow>
          if Date_now e (fst wt) - epoch_fetched ep \<le> 1000 * 30
          then (Inr (epoch_value ep), c, wt)
          else fetchEpochInfo_refresh e c wt
      | None \<Rightarrow> fetchEpochInfo_refresh e c wt)"

section \<open>\<^verbatim>\<open>gfx/token/token.ts\<close>: the token module\<close>

text \<open>
  A JavaScript \<^verbatim>\<open>Map\<close> keeps its keys in the order of their first insertion, and
  \<^verbatim>\<open>load\<close> turns the map into an array, so the map is an association list with distinct
  keys: \<open>Map_set\<close> replaces the value of a key that is present, in place, and appends a new key.
\<close>

type_synonym ('k, 'v) Map = "('k \<times> 'v) list"

fun Map_set :: "('k, 'v) Map \<Rightarrow> 'k \<Rightarrow> 'v \<Rightarrow> ('k, 'v) Map" where
  "Map_set [] k v = [(k, v)]"
| "Map_set ((k', v') # kvs) k v =
     (if k' = k then (k', v) # kvs else (k', v') # Map_set kvs k v)"

definition Map_get :: "('k, 'v) Map \<Rightarrow> 'k \<Rightarrow> 'v option" where
  "Map_get m k = map_of m k"

record mintGroupT =
  official :: "string set"
  jup :: "string set"
  extra :: "string set"

text \<open>
  The fields of \<^verbatim>\<open>TokenModule\<close> without their leading underscore (the getters
  \<^verbatim>\<open>tokenList\<close>, \<^verbatim>\<open>tokenMap\<close> and \<^verbatim>\<open>mintGroup\<close> return the fields as they are), and
  the flag that \<^verbatim>\<open>checkDisabled\<close> of the base class tests.
\<close>

record TokenModule =
  tokenList :: "token list"
  tokenMap :: "(string, token) Map"
  mintGroup :: mintGroupT
  extraTokenList :: "token list"
  disabled :: bool

record LoadParams =
  forceUpdate :: "bool option"

text \<open>\<^verbatim>\<open>Array.prototype.includes\<close>.\<close>

definition array_includes :: "'a list \<Rightarrow> 'a \<Rightarrow> bool" where
  "array_includes xs x = (x \<in> set xs)"

text \<open>Truthiness of an optional string: \<^verbatim>\<open>undefined\<close> and \<^verbatim>\<open>""\<close> are falsy.\<close>

definition truthy :: "string option \<Rightarrow> bool" where
  "truthy s = (case s of None \<Rightarrow> False | Some x \<Rightarrow> x \<noteq> [])"

text \<open>
  The object stored for an entry of the external list:
  \<^verbatim>\<open>programId: token.programId ?? (token.tags.includes("token-2022") ? T22 : T)\<close>.
\<close>

definition jup_entry :: "token \<Rightarrow> token" where
  "jup_entry t =
     t\<lparr> type := Some ''jupiter'',
        priority := Some 1,
        programId := Some (case programId t of
                             Some p \<Rightarrow> p
                           | None \<Rightarrow> if array_includes (tags t) ''token-2022''
                                     then TOKEN_2022_PROGRAM_ID else TOKEN_PROGRAM_ID) \<rparr>"

text \<open>
  The object stored for an entry of the extra list. The source writes
  \<^verbatim>\<open>programId: token.programId || token.tags.includes("token-2022") ? T22 : T\<close>;
  \<^verbatim>\<open>||\<close> binds tighter than \<^verbatim>\<open>? :\<close>, so the disjunction is the condition.
\<close>

definition extra_entry :: "token \<Rightarrow> token" where
  "extra_entry t =
     t\<lparr> type := Some ''extra'',
        priority := Some 1,
        programId := Some (if truthy (programId t) \<or> array_includes (tags t) ''token-2022''
                           then TOKEN_2022_PROGRAM_ID else TOKEN_PROGRAM_ID) \<rparr>"

definition jup_step :: "TokenModule \<Rightarrow> token \<Rightarrow> TokenModule" where
  "jup_step m t =
     m\<lparr> tokenMap := Map_set (tokenMap m) (address t) (jup_entry t),
        mintGroup := (mintGroup m)\<lparr> jup := insert (address t) (jup (mintGroup m)) \<rparr> \<rparr>"

definition extra_step :: "TokenModule \<Rightarrow> token \<Rightarrow> TokenModule" where
  "extra_step m t =
     m\<lparr> tokenMap := Map_set (tokenMap m) (address t) (extra_entry t),
        mintGroup := (mintGroup m)\<lparr> extra := insert (address t) (extra (mintGroup m)) \<rparr> \<rparr>"

text \<open>The body of \<^verbatim>\<open>load\<close> after the list has been fetched; \<open>forEach\<close> is a left fold.\<close>

definition load_merge :: "'w env \<Rightarrow> token list \<Rightarrow> TokenModule \<Rightarrow> TokenModule" where
  "load_merge e jupL m =
     (let m1 = m\<lparr> tokenList := [], tokenMap := [],
                  mintGroup := \<lparr> official = {}, jup = {}, extra = {} \<rparr> \<rparr>;
          m2 = m1\<lparr> tokenMap := Map_set (tokenMap m1) (address (SOL_INFO e)) (SOL_INFO e),
                   mintGroup := (mintGroup m1)\<lparr> official :=
                                   insert (address (SOL_INFO e)) (official (mintGroup m1)) \<rparr> \<rparr>;
          m3 = foldl jup_step m2 jupL;
          m4 = foldl extra_step m3 (extraTokenList m3)
      in m4\<lparr> tokenList := map snd (tokenMap m4) \<rparr>)"

text \<open>\<^verbatim>\<open>const { forceUpdate = false } = params || {}\<close>.\<close>

definition forceUpdate_of :: "LoadParams option \<Rightarrow> bool" where
  "forceUpdate_of params =
     (case params of
        None \<Rightarrow> False
      | Some p \<Rightarrow> (case forceUpdate p of None \<Rightarrow> False | Some b \<Rightarrow> b))"

definition load ::
  "'w env \<Rightarrow> LoadParams option \<Rightarrow> TokenModule \<times> 'w GfxCpmmClient \<Rightarrow> 'w traced \<Rightarrow>
     (error + unit) \<times> (TokenModule \<times> 'w GfxCpmmClient) \<times> 'w traced" where
  "load e params mc wt =
     (case mc of (m, c) \<Rightarrow>
      if disabled m then (Inl Module_not_working, (m, c), wt)
      else
        case fetchJupTokenList e (forceUpdate_of params) c wt of
          (Inl err, c', wt') \<Rightarrow> (Inl err, (m, c'), wt')
        | (Inr jupL, c', wt') \<Rightarrow> (Inr (), (load_merge e jupL m, c'), wt'))"

text \<open>
  \<^verbatim>\<open>toLocaleUpperCase\<close> on the characters an address or the alias can hold: the letters
  \<open>a\<close> to \<open>z\<close> go to \<open>A\<close> to \<open>Z\<close>, every other character stays.
\<close>

definition toUpper_char :: "char \<Rightarrow> char" where
  "toUpper_char ch =
     (let n = (of_char ch :: nat) in if 97 \<le> n \<and> n \<le> 122 then char_of (n - 32) else ch)"

definition toLocaleUpperCase :: "string \<Rightarrow> string" where
  "toLocaleUpperCase s = map toUpper_char s"

definition substring :: "string \<Rightarrow> nat \<Rightarrow> nat \<Rightarrow> string" where
  "substring s i j = take (j - i) (drop i s)"

text \<open>\<^verbatim>\<open>xs[0]\<close> with the truthiness test that follows it: an absent or null element is falsy.\<close>

definition index0 :: "'a option list \<Rightarrow> 'a option" where
  "index0 xs = (case xs of [] \<Rightarrow> None | x # _ \<Rightarrow> x)"

definition fullInfo :: "string \<Rightarrow> accountInfo \<Rightarrow> int \<Rightarrow> token" where
  "fullInfo mintStr onlineInfo dec =
     (let mintSymbol = substring mintStr 0 6 in
      \<lparr> chainId = 101,
        address = mintStr,
        programId = Some (owner onlineInfo),
        logoURI = [],
        symbol = mintSymbol,
        name = mintSymbol,
        decimals = dec,
        tags = [],
        extensions = \<lparr> coingeckoId = None, feeConfig = None \<rparr>,
        priority = Some 0,
        type = Some ''unknown'' \<rparr>)"

definition add_extra :: "TokenModule \<Rightarrow> string \<Rightarrow> token \<Rightarrow> TokenModule" where
  "add_extra m mintStr t =
     m\<lparr> mintGroup := (mintGroup m)\<lparr> extra := insert mintStr (extra (mintGroup m)) \<rparr>,
        tokenMap := Map_set (tokenMap m) mintStr t \<rparr>"

text \<open>
  The ledger tier of \<^verbatim>\<open>getTokenInfo\<close> (lines 91 to 110). The getter \<^verbatim>\<open>connection\<close> is
  evaluated first, then the argument \<^verbatim>\<open>new PublicKey(mintStr)\<close>, then the call.
\<close>

definition getTokenInfo_online ::
  "'w env \<Rightarrow> string \<Rightarrow> TokenModule \<times> 'w GfxCpmmClient \<Rightarrow> 'w traced \<Rightarrow>
     (error + token) \<times> (TokenModule \<times> 'w GfxCpmmClient) \<times> 'w traced" where
  "getTokenInfo_online e mintStr mc wt =
     (case mc of (m, c) \<Rightarrow>
      case connection c of
        Inl err \<Rightarrow> (Inl err, (m, c), wt)
      | Inr conn \<Rightarrow>
         (case new_PublicKey e mintStr of
            Inl err \<Rightarrow> (Inl (Rejected err), (m, c), wt)
          | Inr key \<Rightarrow>
             (case getAccountInfo conn key (fst wt) of
                (Inl err, w') \<Rightarrow>
                  (Inl (Rejected err), (m, c), (w', snd wt @ [GetAccountInfo key]))
              | (Inr None, w') \<Rightarrow>
                  (Inl (Error_mint_address_not_found mintStr), (m, c),
                   (w', snd wt @ [GetAccountInfo key]))
              | (Inr (Some onlineInfo), w') \<Rightarrow>
                  (case MintLayout_decode e (account_data onlineInfo) of
                     Inl err \<Rightarrow>
                       (Inl (Rejected err), (m, c), (w', snd wt @ [GetAccountInfo key]))
                   | Inr dec \<Rightarrow>
                       (let info = fullInfo mintStr onlineInfo dec
                        in (Inr info, (add_extra m mintStr info, c),
                            (w', snd wt @ [GetAccountInfo key])))))))"

text \<open>
  \<^verbatim>\<open>getTokenInfo\<close>. The argument is the string form of the mint (a \<^verbatim>\<open>PublicKey\<close> is
  passed through \<^verbatim>\<open>toString\<close> first); the empty string is the falsy one.
\<close>

definition getTokenInfo ::
  "'w env \<Rightarrow> string \<Rightarrow> TokenModule \<times> 'w GfxCpmmClient \<Rightarrow> 'w traced \<Rightarrow>
     (error + token) \<times> (TokenModule \<times> 'w GfxCpmmClient) \<times> 'w traced" where
  "getTokenInfo e mint mc wt =
     (case mc of (m, c) \<Rightarrow>
      if mint = [] then (Inl Error_please_input_mint, (m, c), wt)
      else
        let mintStr = mint in
        case Map_get (tokenMap m) mintStr of
          Some info \<Rightarrow> (Inr info, (m, c), wt)
        | None \<Rightarrow>
           if toLocaleUpperCase mintStr = ''SOL'' then (Inr (SOL_INFO e), (m, c), wt)
           else
             (case getTokenInfo_api (api c) [mintStr] (fst wt) of
                (Inl err, w') \<Rightarrow>
                  (Inl (Rejected err), (m, c), (w', snd wt @ [GetTokenInfo [mintStr]]))
              | (Inr res, w') \<Rightarrow>
                 (case index0 res of
                    Some apiTokenInfo \<Rightarrow>
                      (Inr apiTokenInfo,
                       (add_extra m mintStr (apiTokenInfo\<lparr> priority := Some 2 \<rparr>), c),
                       (w', snd wt @ [GetTokenInfo [mintStr]]))
                  | None \<Rightarrow>
                      getTokenInfo_online e mintStr (m, c)
                        (w', snd wt @ [GetTokenInfo [mintStr]]))))"



section \<open>\<^verbatim>\<open>api/api.ts\<close>: \<^verbatim>\<open>endlessRetry\<close>\<close>

text \<open>
  The variable \<^verbatim>\<open>result: T | undefined\<close> holds \<^verbatim>\<open>undefined\<close>, or whatever the call
  resolved to, which for a \<open>T\<close> that admits them can itself be \<^verbatim>\<open>undefined\<close> or
  \<^verbatim>\<open>null\<close>. The loop test \<^verbatim>\<open>result == undefined\<close> is the loose equality, true for both.
\<close>

datatype 'a js = Undefined | Null | Val 'a

definition eq_undefined :: "'a js \<Rightarrow> bool" where
  "eq_undefined r = (case r of Undefined \<Rightarrow> True | Null \<Rightarrow> True | Val _ \<Rightarrow> False)"

text \<open>
  The \<^verbatim>\<open>while\<close> loop, with the variable \<open>result\<close> as an argument. The loop need not end, so
  the function is partial: \<open>None\<close> is a loop that runs forever. An attempt is logged as
  \<open>Invoke name\<close>, the pause after a failed attempt as \<open>Sleep interval\<close>; the two logger calls
  have no other effect and are left out.
\<close>

partial_function (option) endlessRetry_loop ::
  "'w env \<Rightarrow> string \<Rightarrow> ('w \<Rightarrow> (rejection + 'a js) \<times> 'w) \<Rightarrow> int \<Rightarrow> 'a js \<Rightarrow> 'w traced \<Rightarrow>
     ((error + 'a js) \<times> 'w traced) option" where
  "endlessRetry_loop e nm call interval result wt =
     (if eq_undefined result then
        (case call (fst wt) of
           (Inr v, w') \<Rightarrow>
             endlessRetry_loop e nm call interval v (w', snd wt @ [Invoke nm])
         | (Inl err, w') \<Rightarrow>
             endlessRetry_loop e nm call interval result
               (sleep e interval w', snd wt @ [Invoke nm, Sleep interval]))
      else Some (Inr result, wt))"

text \<open>\<^verbatim>\<open>endlessRetry(name, call, interval = 1000)\<close>: \<open>None\<close> for the interval is the default.\<close>

definition interval_or_default :: "int option \<Rightarrow> int" where
  "interval_or_default interval = (case interval of None \<Rightarrow> 1000 | Some i \<Rightarrow> i)"

definition endlessRetry ::
  "'w env \<Rightarrow> string \<Rightarrow> ('w \<Rightarrow> (rejection + 'a js) \<times> 'w) \<Rightarrow> int option \<Rightarrow> 'w traced \<Rightarrow>
     ((error + 'a js) \<times> 'w traced) option" where
  "endlessRetry e nm call interval wt =
     endlessRetry_loop e nm call (interval_or_default interval) Undefined wt"

text \<open>
  For stating what the loop does: the world and the log after \<open>n\<close> attempts none of which
  produced a value, that is, each of which either was rejected (and was followed by the
  pause) or resolved to \<^verbatim>\<open>undefined\<close> or \<^verbatim>\<open>null\<close> (and was not). \<open>None\<close> when one of the
  \<open>n\<close> attempts did produce a value.
\<close>

fun fruitless_attempts ::
  "'w env \<Rightarrow> string \<Rightarrow> ('w \<Rightarrow> (rejection + 'a js) \<times> 'w) \<Rightarrow> int \<Rightarrow> nat \<Rightarrow> 'w traced \<Rightarrow>
     'w traced option" where
  "fruitless_attempts e nm call interval 0 wt = Some wt"
| "fruitless_attempts e nm call interval (Suc n) wt =
     (case call (fst wt) of
        (Inl err, w') \<Rightarrow>
          fruitless_attempts e nm call interval n
            (sleep e interval w', snd wt @ [Invoke nm, Sleep interval])
      | (Inr v, w') \<Rightarrow>
          if eq_undefined v
          then fruitless_attempts e nm call interval n (w', snd wt @ [Invoke nm])
          else None)"

section \<open>The layout decoder and the two pool layouts\<close>

text \<open>
  Modelled from the spec: the layout library \<^verbatim>\<open>@/marshmallow\<close> (\<^verbatim>\<open>struct\<close>, \<^verbatim>\<open>blob\<close>,
  \<^verbatim>\<open>u8\<close>, \<^verbatim>\<open>u16\<close>, \<^verbatim>\<open>u64\<close>, \<^verbatim>\<open>u128\<close>, \<^verbatim>\<open>bool\<close>, \<^verbatim>\<open>publicKey\<close>, \<^verbatim>\<open>seq\<close> and the
  \<^verbatim>\<open>decode\<close> and \<^verbatim>\<open>encode\<close> of a layout) is not among the sources; only the two layouts
  built with it are. A field has an optional name (none for padding), a kind that fixes its
  width (unsigned integers of 1, 2, 8 or 16 bytes, a 1-byte boolean, a 32-byte public
  identifier, an opaque run of bytes) and an optional repeat count; a schema is a list of
  fields.
\<close>

datatype kind = Uint nat | Boolean | PublicKeyKind | BlobKind nat

text \<open>Modelled from the spec: \<open>FieldSpec\<close>, one field of a schema (the library's layout
  objects are missing).\<close>

record FieldSpec =
  field_name :: "string option"
  field_kind :: kind
  repeat :: "nat option"

type_synonym schema = "FieldSpec list"

text \<open>Modelled from the spec: the library's field constructor \<^verbatim>\<open>blob\<close>, a run of bytes
  without a name.\<close>

definition blob :: "nat \<Rightarrow> FieldSpec" where
  "blob n = \<lparr> field_name = None, field_kind = BlobKind n, repeat = None \<rparr>"

text \<open>Modelled from the spec: the library's field constructor \<^verbatim>\<open>u8\<close>, an unsigned integer of 1 byte.\<close>

definition u8 :: "string option \<Rightarrow> FieldSpec" where
  "u8 p = \<lparr> field_name = p, field_kind = Uint 1, repeat = None \<rparr>"

text \<open>Modelled from the spec: the library's field constructor \<^verbatim>\<open>u16\<close>, an unsigned integer of 2 bytes.\<close>

definition u16 :: "string option \<Rightarrow> FieldSpec" where
  "u16 p = \<lparr> field_name = p, field_kind = Uint 2, repeat = None \<rparr>"

text \<open>Modelled from the spec: the library's field constructor \<^verbatim>\<open>u64\<close>, an unsigned integer of 8 bytes.\<close>

definition u64 :: "string option \<Rightarrow> FieldSpec" where
  "u64 p = \<lparr> field_name = p, field_kind = Uint 8, repeat = None \<rparr>"

text \<open>Modelled from the spec: the library's field constructor \<^verbatim>\<open>u128\<close>, an unsigned integer of 16 bytes.\<close>

definition u128 :: "string option \<Rightarrow> FieldSpec" where
  "u128 p = \<lparr> field_name = p, field_kind = Uint 16, repeat = None \<rparr>"

text \<open>Modelled from the spec: the library's field constructor \<^verbatim>\<open>bool\<close>, a boolean of 1 byte.\<close>

definition bool :: "string option \<Rightarrow> FieldSpec" where
  "bool p = \<lparr> field_name = p, field_kind = Boolean, repeat = None \<rparr>"

text \<open>Modelled from the spec: the library's field constructor \<^verbatim>\<open>publicKey\<close>, a public identifier of 32 bytes.\<close>

definition publicKey :: "string option \<Rightarrow> FieldSpec" where
  "publicKey p = \<lparr> field_name = p, field_kind = PublicKeyKind, repeat = None \<rparr>"

text \<open>Modelled from the spec: the library's constructor \<^verbatim>\<open>seq\<close>, a fixed number of
  elements of one kind.\<close>

definition seq :: "FieldSpec \<Rightarrow> nat \<Rightarrow> string option \<Rightarrow> FieldSpec" where
  "seq elem count p = \<lparr> field_name = p, field_kind = field_kind elem, repeat = Some count \<rparr>"

text \<open>Modelled from the spec: the library's constructor \<^verbatim>\<open>struct\<close>, the schema of a list
  of fields.\<close>

definition struct :: "FieldSpec list \<Rightarrow> schema" where
  "struct fs = fs"

text \<open>\<^verbatim>\<open>CpmmConfigInfoLayout\<close> and \<^verbatim>\<open>CpmmPoolInfoLayout\<close>, as the source builds them.\<close>

definition CpmmConfigInfoLayout :: schema where
  "CpmmConfigInfoLayout = struct [
     blob 8,
     u8 (Some ''bump''),
     bool (Some ''disableCreatePool''),
     u16 (Some ''index''),
     u64 (Some ''tradeFeeRate''),
     u64 (Some ''protocolFeeRate''),
     u64 (Some ''fundFeeRate''),
     u64 (Some ''createPoolFee''),
     publicKey (Some ''protocolOwner''),
     publicKey (Some ''fundOwner''),
     seq (u64 None) 16 None]"

definition CpmmPoolInfoLayout :: schema where
  "CpmmPoolInfoLayout = struct [
     blob 8,
     publicKey (Some ''configId''),
     publicKey (Some ''poolCreator''),
     publicKey (Some ''vaultA''),
     publicKey (Some ''vaultB''),
     publicKey (Some ''mintLp''),
     publicKey (Some ''mintA''),
     publicKey (Some ''mintB''),
     publicKey (Some ''mintProgramA''),
     publicKey (Some ''mintProgramB''),
     publicKey (Some ''observationId''),
     u8 (Some ''bump''),
     u8 (Some ''status''),
     u8 (Some ''lpDecimals''),
     u8 (Some ''mintDecimalA''),
     u8 (Some ''mintDecimalB''),
     u64 (Some ''lpAmount''),
     u64 (Some ''protocolFeesMintA''),
     u64 (Some ''protocolFeesMintB''),
     u64 (Some ''fundFeesMintA''),
     u64 (Some ''fundFeesMintB''),
     u64 (Some ''openTime''),
     u64 (Some ''recentEpoch''),
     u128 (Some ''tradeFeesTokenA''),
     u128 (Some ''tradeFeesTokenB''),
     u128 (Some ''cumulativeVolumeTokenA''),
     u128 (Some ''cumulativeVolumeTokenB''),
     seq (u64 None) 23 None]"

text \<open>Modelled from the spec: the canonical width of a kind, in bytes (the library's
  \<^verbatim>\<open>span\<close> is missing).\<close>

definition width :: "kind \<Rightarrow> nat" where
  "width k = (case k of Uint n \<Rightarrow> n | Boolean \<Rightarrow> 1 | PublicKeyKind \<Rightarrow> 32 | BlobKind n \<Rightarrow> n)"

text \<open>Modelled from the spec: the width of a field, width times repeat count for a
  sequence.\<close>

definition field_width :: "FieldSpec \<Rightarrow> nat" where
  "field_width f =
     (case repeat f of None \<Rightarrow> width (field_kind f) | Some r \<Rightarrow> width (field_kind f) * r)"

text \<open>Modelled from the spec: the total width of a schema, the sum of the widths of its
  fields.\<close>

definition totalWidth :: "schema \<Rightarrow> nat" where
  "totalWidth sch = sum_list (map field_width sch)"

text \<open>Modelled from the spec: the values of a decoded record, which the missing library
  produces: a number, a boolean, the text of a public identifier, raw bytes, or a sequence of
  these.\<close>

datatype val = Num nat | Bool bool | Key string | Bytes "byte list" | Seq "val list"

text \<open>Modelled from the spec: the decoded record, a mapping from field names to values. The
  discriminator prefix is not interpreted, so it is not among the values; since it is to be
  preserved verbatim on encode, the record carries its bytes as they are.\<close>

type_synonym Values = "(string \<times> val) list"

record Record =
  discriminator :: "byte list"
  named_values :: Values

text \<open>Modelled from the spec: the pluggable codec between the 32 bytes of a public identifier
  and its text.\<close>

record keyCodec =
  to_text :: "byte list \<Rightarrow> string"
  of_text :: "string \<Rightarrow> byte list"

text \<open>Modelled from the spec: the failure of \<^verbatim>\<open>decode\<close> on a buffer of another length.\<close>

datatype layoutError = LengthMismatch

text \<open>Modelled from the spec: reading an unsigned little-endian integer (the library's
  integer layouts are missing).\<close>

fun le_decode :: "byte list \<Rightarrow> nat" where
  "le_decode [] = 0"
| "le_decode (b # bs) = unat b + 256 * le_decode bs"

text \<open>Modelled from the spec: writing an unsigned little-endian integer of \<open>n\<close> bytes.\<close>

fun le_encode :: "nat \<Rightarrow> nat \<Rightarrow> byte list" where
  "le_encode 0 v = []"
| "le_encode (Suc n) v = of_nat (v mod 256) # le_encode n (v div 256)"

text \<open>Modelled from the spec: the \<open>r\<close> consecutive elements, of \<open>w\<close> bytes each, of a
  sequence field.\<close>

fun chunks :: "nat \<Rightarrow> nat \<Rightarrow> 'a list \<Rightarrow> 'a list list" where
  "chunks w 0 bs = []"
| "chunks w (Suc r) bs = take w bs # chunks w r (drop w bs)"

text \<open>Modelled from the spec: decoding one element of a kind (missing with the library). A
  boolean is one byte, any nonzero byte read as true.\<close>

definition decode_scalar :: "keyCodec \<Rightarrow> kind \<Rightarrow> byte list \<Rightarrow> val" where
  "decode_scalar codec k bs =
     (case k of
        Uint n \<Rightarrow> Num (le_decode bs)
      | Boolean \<Rightarrow> Bool (bs \<noteq> [0])
      | PublicKeyKind \<Rightarrow> Key (to_text codec bs)
      | BlobKind n \<Rightarrow> Bytes bs)"

text \<open>Modelled from the spec: decoding a field, a scalar or a sequence of its elements.\<close>

definition decode_field :: "keyCodec \<Rightarrow> FieldSpec \<Rightarrow> byte list \<Rightarrow> val" where
  "decode_field codec f bs =
     (case repeat f of
        None \<Rightarrow> decode_scalar codec (field_kind f) bs
      | Some r \<Rightarrow> Seq (map (decode_scalar codec (field_kind f)) (chunks (width (field_kind f)) r bs)))"

text \<open>Modelled from the spec: decoding the fields of a schema. The bytes are consumed in
  schema order without gaps, and a field without a name is skipped.\<close>

fun decode_fields :: "keyCodec \<Rightarrow> schema \<Rightarrow> byte list \<Rightarrow> Values" where
  "decode_fields codec [] bs = []"
| "decode_fields codec (f # fs) bs =
     (let here = take (field_width f) bs; rest = drop (field_width f) bs
      in case field_name f of
           None \<Rightarrow> decode_fields codec fs rest
         | Some n \<Rightarrow> (n, decode_field codec f here) # decode_fields codec fs rest)"

text \<open>Modelled from the spec: the opaque discriminator prefix with which a schema begins, a
  leading run of bytes without a name (\<^verbatim>\<open>blob(8)\<close> in both layouts); its width, 0 for a
  schema that has none; and the fields after it.\<close>

definition is_prefix :: "FieldSpec \<Rightarrow> bool" where
  "is_prefix f =
     (case field_kind f of
        BlobKind n \<Rightarrow> field_name f = None \<and> repeat f = None
      | _ \<Rightarrow> False)"

definition prefix_width :: "schema \<Rightarrow> nat" where
  "prefix_width sch =
     (case sch of [] \<Rightarrow> 0 | f # fs \<Rightarrow> if is_prefix f then field_width f else 0)"

definition body :: "schema \<Rightarrow> schema" where
  "body sch = (case sch of [] \<Rightarrow> [] | f # fs \<Rightarrow> if is_prefix f then fs else sch)"

text \<open>Modelled from the spec: the library's \<^verbatim>\<open>decode\<close>, which rejects a buffer whose length
  is not the total width. The prefix is neither interpreted nor validated.\<close>

definition decode :: "keyCodec \<Rightarrow> schema \<Rightarrow> byte list \<Rightarrow> layoutError + Record" where
  "decode codec sch buffer =
     (if length buffer \<noteq> totalWidth sch then Inl LengthMismatch
      else Inr \<lparr> discriminator = take (prefix_width sch) buffer,
                 named_values = decode_fields codec (body sch) (drop (prefix_width sch) buffer) \<rparr>)"

text \<open>Modelled from the spec: encoding one element of a kind (missing with the library). The
  spec does not say what becomes of a value of another kind or length; the model answers
  \<open>None\<close> there.\<close>

definition encode_scalar :: "keyCodec \<Rightarrow> kind \<Rightarrow> val \<Rightarrow> byte list option" where
  "encode_scalar codec k v =
     (case (k, v) of
        (Uint n, Num x) \<Rightarrow> Some (le_encode n x)
      | (Boolean, Bool b) \<Rightarrow> Some [if b then 1 else 0]
      | (PublicKeyKind, Key s) \<Rightarrow>
          if length (of_text codec s) = 32 then Some (of_text codec s) else None
      | (BlobKind n, Bytes bs) \<Rightarrow> if length bs = n then Some bs else None
      | _ \<Rightarrow> None)"

text \<open>Modelled from the spec: encoding the elements of a sequence, one after the other.\<close>

fun encode_all :: "keyCodec \<Rightarrow> kind \<Rightarrow> val list \<Rightarrow> byte list option" where
  "encode_all codec k [] = Some []"
| "encode_all codec k (v # vs) =
     (case encode_scalar codec k v of
        None \<Rightarrow> None
      | Some bs \<Rightarrow> (case encode_all codec k vs of None \<Rightarrow> None | Some rest \<Rightarrow> Some (bs @ rest)))"

text \<open>Modelled from the spec: encoding a field, a scalar or a sequence of the declared
  length.\<close>

definition encode_field :: "keyCodec \<Rightarrow> FieldSpec \<Rightarrow> val \<Rightarrow> byte list option" where
  "encode_field codec f v =
     (case repeat f of
        None \<Rightarrow> encode_scalar codec (field_kind f) v
      | Some r \<Rightarrow>
          (case v of
             Seq vs \<Rightarrow> if length vs = r then encode_all codec (field_kind f) vs else None
           | _ \<Rightarrow> None))"

text \<open>Modelled from the spec: encoding the fields of a schema. A padding field (one without a
  name) is zero-filled; a named field is looked up by its name among the values, and \<open>None\<close>
  is the answer when it is not there.\<close>

fun encode_fields :: "keyCodec \<Rightarrow> schema \<Rightarrow> Values \<Rightarrow> byte list option" where
  "encode_fields codec [] r = Some []"
| "encode_fields codec (f # fs) r =
     (case (case field_name f of
              None \<Rightarrow> Some (replicate (field_width f) 0)
            | Some n \<Rightarrow> (case map_of r n of None \<Rightarrow> None | Some v \<Rightarrow> encode_field codec f v)) of
        None \<Rightarrow> None
      | Some here \<Rightarrow>
          (case encode_fields codec fs r of None \<Rightarrow> None | Some rest \<Rightarrow> Some (here @ rest)))"

text \<open>Modelled from the spec: the library's \<^verbatim>\<open>encode\<close>. The discriminator prefix is written
  verbatim from the record (\<open>None\<close> when the record's prefix has another length), the fields
  after it are encoded.\<close>

definition encode :: "keyCodec \<Rightarrow> schema \<Rightarrow> Record \<Rightarrow> byte list option" where
  "encode codec sch r =
     (if length (discriminator r) \<noteq> prefix_width sch then None
      else case encode_fields codec (body sch) (named_values r) of
             None \<Rightarrow> None
           | Some rest \<Rightarrow> Some (discriminator r @ rest))"

text \<open>
  For stating the round trip. A boolean byte is canonical when it is 0 or 1; a buffer has
  canonical booleans when every boolean of a named field is.
\<close>

definition canonical_scalar :: "kind \<Rightarrow> byte list \<Rightarrow> bool" where
  "canonical_scalar k bs = (case k of Boolean \<Rightarrow> bs = [0] \<or> bs = [1] | _ \<Rightarrow> True)"

definition booleans_field :: "FieldSpec \<Rightarrow> byte list \<Rightarrow> bool" where
  "booleans_field f bs =
     (case field_name f of
        None \<Rightarrow> True
      | Some n \<Rightarrow>
          (case repeat f of
             None \<Rightarrow> canonical_scalar (field_kind f) bs
           | Some r \<Rightarrow> list_all (canonical_scalar (field_kind f)) (chunks (width (field_kind f)) r bs)))"

fun booleans_canonical :: "schema \<Rightarrow> byte list \<Rightarrow> bool" where
  "booleans_canonical [] bs = True"
| "booleans_canonical (f # fs) bs =
     (booleans_field f (take (field_width f) bs) \<and> booleans_canonical fs (drop (field_width f) bs))"

text \<open>
  For stating the round trip: a buffer with the bytes of every padding field set to zero, the
  prefix and the named fields as they are.
\<close>

fun zero_unnamed :: "schema \<Rightarrow> byte list \<Rightarrow> byte list" where
  "zero_unnamed [] bs = []"
| "zero_unnamed (f # fs) bs =
     (case field_name f of
        None \<Rightarrow> replicate (field_width f) 0
      | Some n \<Rightarrow> take (field_width f) bs)
     @ zero_unnamed fs (drop (field_width f) bs)"

definition zero_padding :: "schema \<Rightarrow> byte list \<Rightarrow> byte list" where
  "zero_padding sch buffer =
     take (prefix_width sch) buffer @ zero_unnamed (body sch) (drop (prefix_width sch) buffer)"

text \<open>The names of the named fields of a schema, and what the round trip asks of a codec.\<close>

definition names :: "schema \<Rightarrow> string list" where
  "names sch = concat (map (\<lambda>f. case field_name f of None \<Rightarrow> [] | Some n \<Rightarrow> [n]) sch)"

definition codec_inverts :: "keyCodec \<Rightarrow> bool" where
  "codec_inverts codec = (\<forall>bs. length bs = 32 \<longrightarrow> of_text codec (to_text codec bs) = bs)"

section \<open>Concrete collaborators\<close>

text \<open>
  A small world for closed instances of the theorems below: the world is the clock in
  milliseconds, an API call takes 5 ms and an RPC call 7 ms. \<open>api_up\<close> answers every request
  with fixed lists, \<open>api_down\<close> rejects every request.
\<close>

definition demo_token :: "string \<Rightarrow> string option \<Rightarrow> string list \<Rightarrow> token" where
  "demo_token a p tg =
     \<lparr> chainId = 101, address = a, programId = p, logoURI = [], symbol = ''TKN'',
       name = ''Token'', decimals = 6, tags = tg,
       extensions = \<lparr> coingeckoId = None, feeConfig = None \<rparr>,
       priority = None, type = None \<rparr>"

definition demo_env :: "int env" where
  "demo_env =
     \<lparr> SOL_INFO = (demo_token ''11111111111111111111111111111111'' (Some TOKEN_PROGRAM_ID) [])
                    \<lparr> symbol := ''SOL'', decimals := 9 \<rparr>,
       Date_now = (\<lambda>w. w),
       sleep = (\<lambda>n w. w + n),
       new_PublicKey = (\<lambda>s. if length s < 32 then Inl (Rejection ''Invalid public key input'')
                              else Inr s),
       MintLayout_decode = (\<lambda>bs. case drop 44 bs of
                                    [] \<Rightarrow> Inl (Rejection ''RangeError'')
                                  | d # _ \<Rightarrow> Inr (uint d)) \<rparr>"

definition api_up :: "token list \<Rightarrow> token option list \<Rightarrow> int Api" where
  "api_up l r = \<lparr> getJupTokenList = (\<lambda>w. (Inr l, w + 5)),
                  getTokenInfo_api = (\<lambda>mints w. (Inr r, w + 5)) \<rparr>"

definition api_down :: "int Api" where
  "api_down = \<lparr> getJupTokenList = (\<lambda>w. (Inl (Rejection ''timeout''), w + 5)),
                getTokenInfo_api = (\<lambda>mints w. (Inl (Rejection ''timeout''), w + 5)) \<rparr>"

text \<open>A ledger that holds one mint account, owned by the token program, with 9 decimals.\<close>

definition demo_mint :: string where
  "demo_mint = ''So11111111111111111111111111111111111111112''"

definition demo_account :: accountInfo where
  "demo_account = \<lparr> account_data = replicate 44 0 @ [9] @ replicate 37 0,
                    owner = TOKEN_PROGRAM_ID \<rparr>"

definition demo_epoch :: epochInfoValue where
  "demo_epoch = \<lparr> absoluteSlot = 1000, slotIndex = 10, slotsInEpoch = 432000 \<rparr>"

definition demo_connection :: "int Connection" where
  "demo_connection =
     \<lparr> getAccountInfo = (\<lambda>key w. (Inr (if key = demo_mint then Some demo_account else None), w + 7)),
       getEpochInfo = (\<lambda>w. (Inr demo_epoch, w + 7)) \<rparr>"

definition demo_config :: "int Api \<Rightarrow> int option \<Rightarrow> int option \<Rightarrow> int ClientConstructorParams" where
  "demo_config a interval cacheTime =
     \<lparr> cfg_connection = Some demo_connection, cfg_api = a,
       apiRequestInterval = interval, apiCacheTime = cacheTime \<rparr>"

text \<open>A client whose two caches were both filled at time 0.\<close>

definition demo_client :: "int Api \<Rightarrow> token list \<Rightarrow> int GfxCpmmClient" where
  "demo_client a cached =
     (new_GfxCpmmClient (demo_config a None None))
       \<lparr> apiData := \<lparr> jupTokenList = Some \<lparr> fetched = 0, data = cached \<rparr> \<rparr>,
         epochInfo_field := Some \<lparr> epoch_fetched = 0, epoch_value = demo_epoch\<lparr> slotIndex := 3 \<rparr> \<rparr> \<rparr>"

definition demo_module :: "token list \<Rightarrow> TokenModule" where
  "demo_module extraL =
     \<lparr> tokenList = [], tokenMap = [], mintGroup = \<lparr> official = {}, jup = {}, extra = {} \<rparr>,
       extraTokenList = extraL, disabled = False \<rparr>"

text \<open>A three-way collision: the native address is also on the external and on the curated list.\<close>

definition demo_jup_list :: "token list" where
  "demo_jup_list =
     [demo_token ''11111111111111111111111111111111'' (Some ''JupiterSide'') [],
      demo_token ''B'' None [''token-2022'']]"

definition demo_extra_list :: "token list" where
  "demo_extra_list = [demo_token ''11111111111111111111111111111111'' None []]"


text \<open>An address that neither the table, nor the API, nor the ledger knows.\<close>

definition demo_absent :: string where
  "demo_absent = ''Absent11111111111111111111111111111111111''"
text \<open>
  An operation that is rejected while the clock is below 5, resolves to \<^verbatim>\<open>null\<close> while it
  is below 1010, and resolves to 7 afterwards; each attempt takes 5 ms.
\<close>

definition demo_call :: "int \<Rightarrow> (rejection + nat js) \<times> int" where
  "demo_call w =
     (if w < 5 then (Inl (Rejection ''busy''), w + 5)
      else if w < 1010 then (Inr Null, w + 5)
      else (Inr (Val 7), w + 5))"

text \<open>
  A codec for closed instances: the text of a public identifier has one character per byte,
  with the byte as its code.
\<close>

definition plain_codec :: keyCodec where
  "plain_codec =
     \<lparr> to_text = map (\<lambda>b. char_of (unat b)), of_text = map (\<lambda>c. of_nat (of_char c :: nat)) \<rparr>"

text \<open>
  A pool-configuration account with bump 254, pool creation disabled, index 10 and a trade
  fee rate of 1000, all else zero; the same with a nonzero first byte of the prefix; and the
  same with a nonzero last byte of the reserved words.
\<close>

definition demo_config_bytes :: "byte list" where
  "demo_config_bytes =
     replicate 8 0 @ [254, 1, 10, 0] @ [232, 3, 0, 0, 0, 0, 0, 0] @ replicate 216 0"

definition demo_prefixed_bytes :: "byte list" where
  "demo_prefixed_bytes = 1 # replicate 7 0 @ [254, 1, 10, 0] @ [232, 3, 0, 0, 0, 0, 0, 0] @ replicate 216 0"

definition demo_padded_bytes :: "byte list" where
  "demo_padded_bytes =
     replicate 8 0 @ [254, 1, 10, 0] @ [232, 3, 0, 0, 0, 0, 0, 0] @ replicate 215 0 @ [1]"

section \<open>Properties of the caches\<close>

lemma fetchJupTokenList_fresh:
  "jupTokenList (apiData c) = Some p \<Longrightarrow>
   Date_now e (fst wt) - fetched p \<le> apiCacheTime_field c \<Longrightarrow> \<not> force \<Longrightarrow>
   fetchJupTokenList e force c wt = (Inr (data p), c, wt)"
  by (simp add: fetchJupTokenList_def isCacheInvalidate_def)

lemma fetchJupTokenList_stale:
  "jupTokenList (apiData c) = Some p \<Longrightarrow>
   apiCacheTime_field c < Date_now e (fst wt) - fetched p \<Longrightarrow>
   getJupTokenList (api c) (fst wt) = (Inr xs, w') \<Longrightarrow>
   fetchJupTokenList e force c wt =
     (Inr xs,
      c\<lparr> apiData := (apiData c)\<lparr> jupTokenList := Some \<lparr> fetched = Date_now e w', data = xs \<rparr> \<rparr> \<rparr>,
      (w', snd wt @ [GetJupTokenList]))"
  by (simp add: fetchJupTokenList_def isCacheInvalidate_def fetchJupTokenList_try_def)

lemma fetchEpochInfo_fresh:
  "epochInfo_field c = Some ep \<Longrightarrow> Date_now e (fst wt) - epoch_fetched ep \<le> 30000 \<Longrightarrow>
   fetchEpochInfo e c wt = (Inr (epoch_value ep), c, wt)"
  by (simp add: fetchEpochInfo_def)

lemma fetchEpochInfo_stale:
  "epochInfo_field c = Some ep \<Longrightarrow> 30000 < Date_now e (fst wt) - epoch_fetched ep \<Longrightarrow>
   connection_field c = Some conn \<Longrightarrow> getEpochInfo conn (fst wt) = (Inr v, w') \<Longrightarrow>
   fetchEpochInfo e c wt =
     (Inr v,
      c\<lparr> epochInfo_field := Some \<lparr> epoch_fetched = Date_now e (fst wt), epoch_value = v \<rparr> \<rparr>,
      (w', snd wt @ [GetEpochInfo]))"
  by (simp add: fetchEpochInfo_def fetchEpochInfo_refresh_def connection_def)

lemmas demo_defs =
  demo_token_def demo_env_def api_up_def api_down_def demo_connection_def demo_config_def
  demo_client_def demo_module_def new_GfxCpmmClient_def or_number_def demo_epoch_def

text \<open>
  C8. Both caches, the token list with the client's cache time and the epoch information with
  its fixed 30 seconds: while a value is cached and \<open>now - fetched \<le> ttl\<close>, a call without
  forced refresh returns the cached value, leaves the client as it is and issues no call (the
  log is unchanged); once the time has elapsed, a call issues exactly one fetch and, when the
  fetch succeeds, stores its result with the time read from the clock (after the fetch for the
  token list, before it for the epoch information).
\<close>

theorem C8_cache_within_and_after_ttl:
  "(jupTokenList (apiData c) = Some p \<and>
      Date_now e (fst wt) - fetched p \<le> apiCacheTime_field c \<and> \<not> force \<longrightarrow>
      fetchJupTokenList e force c wt = (Inr (data p), c, wt))
   \<and> (jupTokenList (apiData c) = Some p \<and>
      apiCacheTime_field c < Date_now e (fst wt) - fetched p \<and>
      getJupTokenList (api c) (fst wt) = (Inr xs, w') \<longrightarrow>
      fetchJupTokenList e force c wt =
        (Inr xs,
         c\<lparr> apiData := (apiData c)\<lparr> jupTokenList :=
              Some \<lparr> fetched = Date_now e w', data = xs \<rparr> \<rparr> \<rparr>,
         (w', snd wt @ [GetJupTokenList])))
   \<and> (epochInfo_field c = Some ep \<and> Date_now e (fst wt) - epoch_fetched ep \<le> 30000 \<longrightarrow>
      fetchEpochInfo e c wt = (Inr (epoch_value ep), c, wt))
   \<and> (epochInfo_field c = Some ep \<and> 30000 < Date_now e (fst wt) - epoch_fetched ep \<and>
      connection_field c = Some conn \<and> getEpochInfo conn (fst wt) = (Inr v, w'') \<longrightarrow>
      fetchEpochInfo e c wt =
        (Inr v,
         c\<lparr> epochInfo_field := Some \<lparr> epoch_fetched = Date_now e (fst wt), epoch_value = v \<rparr> \<rparr>,
         (w'', snd wt @ [GetEpochInfo])))"
  using fetchJupTokenList_fresh [of c p e wt force]
    fetchJupTokenList_stale [of c p e wt xs w' force]
    fetchEpochInfo_fresh [of c ep e wt]
    fetchEpochInfo_stale [of c ep e wt conn v w'']
  by blast

theorem C8_cache_within_and_after_ttl_witness:
  "fetchJupTokenList demo_env False (demo_client (api_up [demo_token ''B'' None []] []) [demo_token ''A'' None []])
      (300000, []) =
     (Inr [demo_token ''A'' None []],
      demo_client (api_up [demo_token ''B'' None []] []) [demo_token ''A'' None []], (300000, []))
   \<and> fetchJupTokenList demo_env False (demo_client (api_up [demo_token ''B'' None []] []) [demo_token ''A'' None []])
      (300001, []) =
     (Inr [demo_token ''B'' None []],
      (demo_client (api_up [demo_token ''B'' None []] []) [demo_token ''A'' None []])
        \<lparr> apiData := \<lparr> jupTokenList = Some \<lparr> fetched = 300006, data = [demo_token ''B'' None []] \<rparr> \<rparr> \<rparr>,
      (300006, [GetJupTokenList]))
   \<and> fetchEpochInfo demo_env (demo_client (api_up [] []) []) (30000, []) =
     (Inr (demo_epoch\<lparr> slotIndex := 3 \<rparr>), demo_client (api_up [] []) [], (30000, []))
   \<and> fetchEpochInfo demo_env (demo_client (api_up [] []) []) (30001, []) =
     (Inr demo_epoch,
      (demo_client (api_up [] []) [])
        \<lparr> epochInfo_field := Some \<lparr> epoch_fetched = 30001, epoch_value = demo_epoch \<rparr> \<rparr>,
      (30008, [GetEpochInfo]))"
  using
    C8_cache_within_and_after_ttl [where e = demo_env and force = False and wt = "(300000, [])"
      and c = "demo_client (api_up [demo_token ''B'' None []] []) [demo_token ''A'' None []]"
      and p = "\<lparr> fetched = 0, data = [demo_token ''A'' None []] \<rparr>"]
    C8_cache_within_and_after_ttl [where e = demo_env and force = False and wt = "(300001, [])"
      and c = "demo_client (api_up [demo_token ''B'' None []] []) [demo_token ''A'' None []]"
      and p = "\<lparr> fetched = 0, data = [demo_token ''A'' None []] \<rparr>"
      and xs = "[demo_token ''B'' None []]" and w' = 300006]
    C8_cache_within_and_after_ttl [where e = demo_env and wt = "(30000, [])"
      and c = "demo_client (api_up [] []) []"
      and ep = "\<lparr> epoch_fetched = 0, epoch_value = demo_epoch\<lparr> slotIndex := 3 \<rparr> \<rparr>"]
    C8_cache_within_and_after_ttl [where e = demo_env and wt = "(30001, [])"
      and c = "demo_client (api_up [] []) []"
      and ep = "\<lparr> epoch_fetched = 0, epoch_value = demo_epoch\<lparr> slotIndex := 3 \<rparr> \<rparr>"
      and conn = demo_connection and v = demo_epoch and w'' = 30008]
  by (simp add: demo_defs)

text \<open>
  C4 (as amended). When a refresh of the token list is due (nothing cached, the cached value
  too old, or a forced update) and the fetch fails, the client is left exactly as it was, so a
  cached value survives; the caller receives the empty list in every case, neither the cached
  value nor the error.
\<close>

theorem C4_failed_refresh_returns_empty:
  assumes "getJupTokenList (api c) (fst wt) = (Inl err, w')"
    and "case jupTokenList (apiData c) of
           None \<Rightarrow> True
         | Some p \<Rightarrow> apiCacheTime_field c < Date_now e (fst wt) - fetched p \<or> force"
  shows "fetchJupTokenList e force c wt = (Inr [], c, (w', snd wt @ [GetJupTokenList]))"
  using assms
  by (auto simp add: fetchJupTokenList_def isCacheInvalidate_def fetchJupTokenList_try_def
      split: option.splits)

theorem C4_failed_refresh_returns_empty_witness:
  "fetchJupTokenList demo_env False (demo_client api_down [demo_token ''A'' None []]) (300001, []) =
     (Inr [], demo_client api_down [demo_token ''A'' None []], (300006, [GetJupTokenList]))"
  using C4_failed_refresh_returns_empty [where e = demo_env and force = False
      and c = "demo_client api_down [demo_token ''A'' None []]" and wt = "(300001, [])"
      and err = "Rejection ''timeout''" and w' = 300006]
  by (simp add: demo_defs)

text \<open>
  C4 as stated fails: with a cached list \<open>[A]\<close> and a failing refresh the caller does not
  receive \<open>[A]\<close>, and with nothing cached the error \<open>timeout\<close> does not reach the caller.
\<close>

theorem C4_stale_value_and_error_not_returned:
  "fst (fetchJupTokenList demo_env False (demo_client api_down [demo_token ''A'' None []]) (300001, []))
     \<noteq> Inr [demo_token ''A'' None []]
   \<and> fst (fetchJupTokenList demo_env False (new_GfxCpmmClient (demo_config api_down None None)) (0, []))
     \<noteq> Inl (Rejected (Rejection ''timeout''))"
  by (simp add: demo_defs fetchJupTokenList_def isCacheInvalidate_def fetchJupTokenList_try_def)

text \<open>
  C3. The documented policy (\<open>-1\<close>: never request again, \<open>0\<close>: always fresh data) evaluated on
  the code, each time as a first call at time 0 followed by a second call:
  with \<open>apiCacheTime = -1\<close> the second call, made at once, fetches again;
  with \<open>apiCacheTime = 0\<close> the cache time is 5 minutes and the second call, a second later,
  reuses the cached list;
  with \<open>apiRequestInterval = -1\<close> the cache time is 5 minutes and a call later than that
  fetches again.
\<close>

theorem C3_sentinel_cache_times_evaluated:
  "(case fetchJupTokenList demo_env False
           (new_GfxCpmmClient (demo_config (api_up [] []) None (Some (- 1)))) (0, []) of
      (r1, c1, wt1) \<Rightarrow> snd (snd (snd (fetchJupTokenList demo_env False c1 wt1))))
     = [GetJupTokenList, GetJupTokenList]
   \<and> apiCacheTime_field (new_GfxCpmmClient (demo_config (api_up [] []) None (Some 0))) = 300000
   \<and> (case fetchJupTokenList demo_env False
           (new_GfxCpmmClient (demo_config (api_up [] []) None (Some 0))) (0, []) of
      (r1, c1, wt1) \<Rightarrow> snd (snd (snd (fetchJupTokenList demo_env False c1 (fst wt1 + 1000, snd wt1)))))
     = [GetJupTokenList]
   \<and> (case fetchJupTokenList demo_env False
           (new_GfxCpmmClient (demo_config (api_up [] []) (Some (- 1)) None)) (0, []) of
      (r1, c1, wt1) \<Rightarrow> snd (snd (snd (fetchJupTokenList demo_env False c1 (fst wt1 + 300001, snd wt1)))))
     = [GetJupTokenList, GetJupTokenList]"
  by (simp add: demo_defs fetchJupTokenList_def isCacheInvalidate_def fetchJupTokenList_try_def)

section \<open>Properties of \<^verbatim>\<open>load\<close>\<close>

lemma map_of_Map_set: "map_of (Map_set m k v) = (map_of m)(k \<mapsto> v)"
  by (induction m k v rule: Map_set.induct) (auto simp: fun_eq_iff)

lemma keys_Map_set: "fst ` set (Map_set m k v) = insert k (fst ` set m)"
  by (induction m k v rule: Map_set.induct) auto

lemma distinct_Map_set: "distinct (map fst m) \<Longrightarrow> distinct (map fst (Map_set m k v))"
  by (induction m k v rule: Map_set.induct) (auto simp: keys_Map_set)

lemma Map_get_Map_set: "Map_get (Map_set m k v) a = (if a = k then Some v else Map_get m a)"
  by (simp add: Map_get_def map_of_Map_set)

lemma Map_get_Nil: "Map_get [] a = None"
  by (simp add: Map_get_def)

lemma find_app:
  "find P (xs @ ys) = (case find P xs of Some x \<Rightarrow> Some x | None \<Rightarrow> find P ys)"
  by (induction xs) auto

lemma find_address: "find (\<lambda>t. address t = a) xs = Some x \<Longrightarrow> address x = a"
  by (induction xs) (auto split: if_splits)

lemma jup_step_get:
  "Map_get (tokenMap (jup_step m t)) a =
     (if a = address t then Some (jup_entry t) else Map_get (tokenMap m) a)"
  by (simp add: jup_step_def Map_get_Map_set)

lemma extra_step_get:
  "Map_get (tokenMap (extra_step m t)) a =
     (if a = address t then Some (extra_entry t) else Map_get (tokenMap m) a)"
  by (simp add: extra_step_def Map_get_Map_set)

lemma jup_step_frame:
  "mintGroup (jup_step m t) = (mintGroup m)\<lparr> jup := insert (address t) (jup (mintGroup m)) \<rparr>"
  "extraTokenList (jup_step m t) = extraTokenList m"
  "disabled (jup_step m t) = disabled m"
  "distinct (map fst (tokenMap m)) \<Longrightarrow> distinct (map fst (tokenMap (jup_step m t)))"
  by (simp_all add: jup_step_def distinct_Map_set)

lemma extra_step_frame:
  "mintGroup (extra_step m t) = (mintGroup m)\<lparr> extra := insert (address t) (extra (mintGroup m)) \<rparr>"
  "extraTokenList (extra_step m t) = extraTokenList m"
  "disabled (extra_step m t) = disabled m"
  "distinct (map fst (tokenMap m)) \<Longrightarrow> distinct (map fst (tokenMap (extra_step m t)))"
  by (simp_all add: extra_step_def distinct_Map_set)

text \<open>The entry that a \<open>forEach\<close> over \<open>ts\<close> leaves at address \<open>a\<close> is that of the last
  element of \<open>ts\<close> with this address.\<close>

lemma foldl_jup_step_get:
  "Map_get (tokenMap (foldl jup_step m ts)) a =
     (case find (\<lambda>t. address t = a) (rev ts) of
        Some t \<Rightarrow> Some (jup_entry t) | None \<Rightarrow> Map_get (tokenMap m) a)"
proof (induction ts arbitrary: m)
  case Nil
  show ?case by simp
next
  case (Cons t ts)
  show ?case
    by (auto simp add: Cons.IH find_app jup_step_get split: option.splits)
qed

lemma foldl_extra_step_get:
  "Map_get (tokenMap (foldl extra_step m ts)) a =
     (case find (\<lambda>t. address t = a) (rev ts) of
        Some t \<Rightarrow> Some (extra_entry t) | None \<Rightarrow> Map_get (tokenMap m) a)"
proof (induction ts arbitrary: m)
  case Nil
  show ?case by simp
next
  case (Cons t ts)
  show ?case
    by (auto simp add: Cons.IH find_app extra_step_get split: option.splits)
qed

lemma foldl_jup_step_frame:
  "mintGroup (foldl jup_step m ts) =
     (mintGroup m)\<lparr> jup := jup (mintGroup m) \<union> address ` set ts \<rparr>
   \<and> extraTokenList (foldl jup_step m ts) = extraTokenList m
   \<and> disabled (foldl jup_step m ts) = disabled m
   \<and> (distinct (map fst (tokenMap m)) \<longrightarrow> distinct (map fst (tokenMap (foldl jup_step m ts))))"
  by (induction ts arbitrary: m) (simp_all add: jup_step_frame Un_commute insert_commute)

lemma foldl_extra_step_frame:
  "mintGroup (foldl extra_step m ts) =
     (mintGroup m)\<lparr> extra := extra (mintGroup m) \<union> address ` set ts \<rparr>
   \<and> extraTokenList (foldl extra_step m ts) = extraTokenList m
   \<and> disabled (foldl extra_step m ts) = disabled m
   \<and> (distinct (map fst (tokenMap m)) \<longrightarrow> distinct (map fst (tokenMap (foldl extra_step m ts))))"
  by (induction ts arbitrary: m) (simp_all add: extra_step_frame Un_commute insert_commute)

lemma load_merge_get:
  "Map_get (tokenMap (load_merge e jupL m)) a =
     (case find (\<lambda>t. address t = a) (rev (extraTokenList m)) of
        Some t \<Rightarrow> Some (extra_entry t)
      | None \<Rightarrow>
         (case find (\<lambda>t. address t = a) (rev jupL) of
            Some t \<Rightarrow> Some (jup_entry t)
          | None \<Rightarrow> if a = address (SOL_INFO e) then Some (SOL_INFO e) else None))"
proof -
  define m2 where "m2 = m\<lparr> tokenList := [], tokenMap := [(address (SOL_INFO e), SOL_INFO e)],
    mintGroup := \<lparr> official = {address (SOL_INFO e)}, jup = {}, extra = {} \<rparr> \<rparr>"
  have base: "Map_get (tokenMap m2) a =
      (if a = address (SOL_INFO e) then Some (SOL_INFO e) else None)"
    by (auto simp add: m2_def Map_get_def)
  have "extraTokenList (foldl jup_step m2 jupL) = extraTokenList m"
    by (simp add: foldl_jup_step_frame m2_def)
  then have "tokenMap (load_merge e jupL m) =
      tokenMap (foldl extra_step (foldl jup_step m2 jupL) (extraTokenList m))"
    by (simp add: load_merge_def Let_def m2_def)
  then show ?thesis
    by (simp only: foldl_extra_step_get foldl_jup_step_get base)
qed

lemma load_merge_groups:
  "mintGroup (load_merge e jupL m) =
     \<lparr> official = {address (SOL_INFO e)}, jup = address ` set jupL,
       extra = address ` set (extraTokenList m) \<rparr>"
  by (simp add: load_merge_def Let_def foldl_extra_step_frame foldl_jup_step_frame)

lemma load_merge_list:
  "tokenList (load_merge e jupL m) = map snd (tokenMap (load_merge e jupL m))
   \<and> distinct (map fst (tokenMap (load_merge e jupL m)))
   \<and> extraTokenList (load_merge e jupL m) = extraTokenList m"
  by (simp add: load_merge_def Let_def foldl_extra_step_frame foldl_jup_step_frame)

lemma load_success:
  "\<not> disabled m \<Longrightarrow> fetchJupTokenList e (forceUpdate_of params) c wt = (Inr jupL, c', wt') \<Longrightarrow>
   load e params (m, c) wt = (Inr (), (load_merge e jupL m, c'), wt')"
  by (simp add: load_def)

lemma entry_address: "address (jup_entry t) = address t" "address (extra_entry t) = address t"
  by (simp_all add: jup_entry_def extra_entry_def)

text \<open>
  C1. A \<^verbatim>\<open>load\<close> that is not disabled and whose list fetch returns \<open>jupL\<close> succeeds, and in
  the module it leaves: the table holds, for every address, the entry of the last source in
  the order official, external, curated that contains the address (within a list, of its last
  element with this address), as that source's merge step writes it; every stored record is
  keyed by its own address and no key occurs twice; the three provenance sets hold exactly the
  addresses of their source, whether or not a later source overwrote the record; and the list
  view is the table's values in insertion order.
\<close>

theorem C1_load_last_write_wins:
  assumes "\<not> disabled m"
    and "fetchJupTokenList e (forceUpdate_of params) c wt = (Inr jupL, c', wt')"
  shows "\<exists>m'. load e params (m, c) wt = (Inr (), (m', c'), wt')
     \<and> (\<forall>a. Map_get (tokenMap m') a =
           (case find (\<lambda>t. address t = a) (rev (extraTokenList m)) of
              Some t \<Rightarrow> Some (extra_entry t)
            | None \<Rightarrow>
               (case find (\<lambda>t. address t = a) (rev jupL) of
                  Some t \<Rightarrow> Some (jup_entry t)
                | None \<Rightarrow> if a = address (SOL_INFO e) then Some (SOL_INFO e) else None)))
     \<and> (\<forall>a t. Map_get (tokenMap m') a = Some t \<longrightarrow> address t = a)
     \<and> distinct (map fst (tokenMap m'))
     \<and> official (mintGroup m') = {address (SOL_INFO e)}
     \<and> jup (mintGroup m') = address ` set jupL
     \<and> extra (mintGroup m') = address ` set (extraTokenList m)
     \<and> tokenList m' = map snd (tokenMap m')"
proof -
  let ?m' = "load_merge e jupL m"
  have keyed: "address t = a" if "Map_get (tokenMap ?m') a = Some t" for a t
  proof (cases "find (\<lambda>t. address t = a) (rev (extraTokenList m))")
    case (Some x)
    with that have "t = extra_entry x" by (simp add: load_merge_get)
    with find_address [OF Some] show ?thesis by (simp add: entry_address)
  next
    case None
    note noExtra = None
    show ?thesis
    proof (cases "find (\<lambda>t. address t = a) (rev jupL)")
      case (Some x)
      with that noExtra have "t = jup_entry x" by (simp add: load_merge_get)
      with find_address [OF Some] show ?thesis by (simp add: entry_address)
    next
      case None
      with that noExtra show ?thesis by (simp add: load_merge_get split: if_splits)
    qed
  qed
  show ?thesis
  proof (rule exI [of _ ?m'], intro conjI allI impI)
    show "load e params (m, c) wt = (Inr (), (?m', c'), wt')"
      by (rule load_success [OF assms])
    show "address t = a" if "Map_get (tokenMap ?m') a = Some t" for a t
      using that by (rule keyed)
    show "Map_get (tokenMap ?m') a =
           (case find (\<lambda>t. address t = a) (rev (extraTokenList m)) of
              Some t \<Rightarrow> Some (extra_entry t)
            | None \<Rightarrow>
               (case find (\<lambda>t. address t = a) (rev jupL) of
                  Some t \<Rightarrow> Some (jup_entry t)
                | None \<Rightarrow> if a = address (SOL_INFO e) then Some (SOL_INFO e) else None))" for a
      by (rule load_merge_get)
    show "distinct (map fst (tokenMap ?m'))" "tokenList ?m' = map snd (tokenMap ?m')"
      by (simp_all add: load_merge_list)
    show "official (mintGroup ?m') = {address (SOL_INFO e)}"
      "jup (mintGroup ?m') = address ` set jupL"
      "extra (mintGroup ?m') = address ` set (extraTokenList m)"
      by (simp_all add: load_merge_groups)
  qed
qed

lemma demo_fetch:
  "fetchJupTokenList demo_env (forceUpdate_of None)
      (new_GfxCpmmClient (demo_config (api_up l []) None None)) (0, []) =
     (Inr l,
      (new_GfxCpmmClient (demo_config (api_up l []) None None))
        \<lparr> apiData := \<lparr> jupTokenList = Some \<lparr> fetched = 5, data = l \<rparr> \<rparr> \<rparr>,
      (5, [GetJupTokenList]))"
  by (simp add: demo_defs fetchJupTokenList_def fetchJupTokenList_try_def forceUpdate_of_def)

theorem C1_load_last_write_wins_witness:
  "\<exists>m'. fst (snd (load demo_env None
              (demo_module demo_extra_list,
               new_GfxCpmmClient (demo_config (api_up demo_jup_list []) None None)) (0, []))) =
           (m', (new_GfxCpmmClient (demo_config (api_up demo_jup_list []) None None))
                  \<lparr> apiData := \<lparr> jupTokenList = Some \<lparr> fetched = 5, data = demo_jup_list \<rparr> \<rparr> \<rparr>)
     \<and> Map_get (tokenMap m') ''11111111111111111111111111111111'' =
         Some (extra_entry (demo_token ''11111111111111111111111111111111'' None []))
     \<and> Map_get (tokenMap m') ''B'' = Some (jup_entry (demo_token ''B'' None [''token-2022'']))
     \<and> Map_get (tokenMap m') ''C'' = None
     \<and> official (mintGroup m') = {''11111111111111111111111111111111''}
     \<and> jup (mintGroup m') = {''11111111111111111111111111111111'', ''B''}
     \<and> extra (mintGroup m') = {''11111111111111111111111111111111''}"
proof -
  have h1: "\<not> disabled (demo_module demo_extra_list)"
    by (simp add: demo_module_def)
  from C1_load_last_write_wins [OF h1 demo_fetch [of demo_jup_list]] show ?thesis
  proof (elim exE conjE)
    fix m'
    assume m': "load demo_env None
              (demo_module demo_extra_list,
               new_GfxCpmmClient (demo_config (api_up demo_jup_list []) None None)) (0, []) =
           (Inr (), (m', (new_GfxCpmmClient (demo_config (api_up demo_jup_list []) None None))
                  \<lparr> apiData := \<lparr> jupTokenList = Some \<lparr> fetched = 5, data = demo_jup_list \<rparr> \<rparr> \<rparr>),
            (5, [GetJupTokenList]))"
      and get: "\<forall>a. Map_get (tokenMap m') a =
           (case find (\<lambda>t. address t = a) (rev (extraTokenList (demo_module demo_extra_list))) of
              Some t \<Rightarrow> Some (extra_entry t)
            | None \<Rightarrow>
               (case find (\<lambda>t. address t = a) (rev demo_jup_list) of
                  Some t \<Rightarrow> Some (jup_entry t)
                | None \<Rightarrow> if a = address (SOL_INFO demo_env) then Some (SOL_INFO demo_env) else None))"
      and grp: "official (mintGroup m') = {address (SOL_INFO demo_env)}"
        "jup (mintGroup m') = address ` set demo_jup_list"
        "extra (mintGroup m') = address ` set (extraTokenList (demo_module demo_extra_list))"
    have sets: "address (SOL_INFO demo_env) = ''11111111111111111111111111111111''"
      "address ` set demo_jup_list = {''11111111111111111111111111111111'', ''B''}"
      "address ` set (extraTokenList (demo_module demo_extra_list)) =
         {''11111111111111111111111111111111''}"
      by (simp_all add: demo_module_def demo_extra_list_def demo_jup_list_def demo_token_def
          demo_env_def)
    have gets: "Map_get (tokenMap m') ''11111111111111111111111111111111'' =
         Some (extra_entry (demo_token ''11111111111111111111111111111111'' None []))"
      "Map_get (tokenMap m') ''B'' = Some (jup_entry (demo_token ''B'' None [''token-2022'']))"
      "Map_get (tokenMap m') ''C'' = None"
      unfolding get [rule_format]
      by (simp_all add: demo_module_def demo_extra_list_def demo_jup_list_def demo_token_def
          demo_env_def)
    show ?thesis
      unfolding m' fst_conv snd_conv
      by (rule exI [of _ m']) (simp only: gets grp sets simp_thms)
  qed
qed

section \<open>Properties of \<^verbatim>\<open>getTokenInfo\<close>\<close>

lemma add_extra_frame:
  "tokenList (add_extra m k t) = tokenList m"
  "extraTokenList (add_extra m k t) = extraTokenList m"
  "disabled (add_extra m k t) = disabled m"
  "official (mintGroup (add_extra m k t)) = official (mintGroup m)"
  "jup (mintGroup (add_extra m k t)) = jup (mintGroup m)"
  "extra (mintGroup (add_extra m k t)) = insert k (extra (mintGroup m))"
  "Map_get (tokenMap (add_extra m k t)) a = (if a = k then Some t else Map_get (tokenMap m) a)"
  by (simp_all add: add_extra_def Map_get_Map_set)

text \<open>What the ledger tier can do to the module, and what it logs.\<close>

lemma getTokenInfo_online_cases:
  assumes "getTokenInfo_online e mint (m, c) wt = (r, (m', c'), wt')"
  shows "c' = c \<and>
     ((\<exists>err. r = Inl err \<and> m' = m) \<or> (\<exists>t. r = Inr t \<and> m' = add_extra m mint t)) \<and>
     (snd wt' = snd wt \<or> (\<exists>key. snd wt' = snd wt @ [GetAccountInfo key]))"
  using assms
  by (auto simp add: getTokenInfo_online_def Let_def
      split: sum.splits prod.splits option.splits)

lemma getTokenInfo_cases:
  assumes "getTokenInfo e mint (m, c) wt = (r, (m', c'), wt')"
  shows "c' = c \<and>
     (m' = m \<or> (\<exists>t info. r = Inr info \<and> m' = add_extra m mint t \<and>
                  Map_get (tokenMap m) mint = None \<and> toLocaleUpperCase mint \<noteq> ''SOL''))"
  using assms
  by (auto simp add: getTokenInfo_def Let_def
      split: sum.splits prod.splits option.splits if_splits dest!: getTokenInfo_online_cases)


lemma fullInfo_fields:
  "symbol (fullInfo mint acc dec) = take 6 mint"
  "name (fullInfo mint acc dec) = take 6 mint"
  "tags (fullInfo mint acc dec) = []"
  "priority (fullInfo mint acc dec) = Some 0"
  "type (fullInfo mint acc dec) = Some ''unknown''"
  "programId (fullInfo mint acc dec) = Some (owner acc)"
  "decimals (fullInfo mint acc dec) = dec"
  "address (fullInfo mint acc dec) = mint"
  by (simp_all add: fullInfo_def substring_def Let_def)

text \<open>
  C6. For a non-empty address that the table does not hold, that is not the alias \<open>SOL\<close>, for
  which the API returns no record, and for which the ledger call returns: when the account
  does not exist, \<^verbatim>\<open>getTokenInfo\<close> fails with "mint address not found"; when it exists and
  its data decode, \<^verbatim>\<open>getTokenInfo\<close> returns a record whose symbol and name are the first 6
  characters of the address, with no tags, priority 0, type "unknown", the account's owner as
  \<open>programId\<close> and the decoded decimals, after the API and then the ledger were asked once
  each, and the record is in the table under the address, which is in the \<open>extra\<close> set.
\<close>

theorem C6_ledger_tier:
  assumes "mint \<noteq> []" and "Map_get (tokenMap m) mint = None"
    and "toLocaleUpperCase mint \<noteq> ''SOL''"
    and "getTokenInfo_api (api c) [mint] (fst wt) = (Inr res, w1)" and "index0 res = None"
    and "connection_field c = Some conn" and "new_PublicKey e mint = Inr key"
    and "getAccountInfo conn key w1 = (Inr found, w2)"
  shows "(found = None \<longrightarrow>
           fst (getTokenInfo e mint (m, c) wt) = Inl (Error_mint_address_not_found mint))
     \<and> (\<forall>onlineInfo dec.
           found = Some onlineInfo \<and> MintLayout_decode e (account_data onlineInfo) = Inr dec \<longrightarrow>
           (\<exists>info m'.
              getTokenInfo e mint (m, c) wt =
                (Inr info, (m', c), (w2, snd wt @ [GetTokenInfo [mint], GetAccountInfo key]))
              \<and> symbol info = take 6 mint \<and> name info = take 6 mint \<and> tags info = []
              \<and> priority info = Some 0 \<and> type info = Some ''unknown''
              \<and> programId info = Some (owner onlineInfo) \<and> decimals info = dec
              \<and> address info = mint
              \<and> Map_get (tokenMap m') mint = Some info
              \<and> extra (mintGroup m') = insert mint (extra (mintGroup m))))"
proof (intro conjI allI impI)
  assume "found = None"
  with assms show "fst (getTokenInfo e mint (m, c) wt) = Inl (Error_mint_address_not_found mint)"
    by (simp add: getTokenInfo_def getTokenInfo_online_def connection_def)
next
  fix onlineInfo dec
  assume h: "found = Some onlineInfo \<and> MintLayout_decode e (account_data onlineInfo) = Inr dec"
  let ?info = "fullInfo mint onlineInfo dec"
  from assms h have "getTokenInfo e mint (m, c) wt =
      (Inr ?info, (add_extra m mint ?info, c),
       (w2, snd wt @ [GetTokenInfo [mint], GetAccountInfo key]))"
    by (simp add: getTokenInfo_def getTokenInfo_online_def connection_def Let_def)
  then show "\<exists>info m'.
              getTokenInfo e mint (m, c) wt =
                (Inr info, (m', c), (w2, snd wt @ [GetTokenInfo [mint], GetAccountInfo key]))
              \<and> symbol info = take 6 mint \<and> name info = take 6 mint \<and> tags info = []
              \<and> priority info = Some 0 \<and> type info = Some ''unknown''
              \<and> programId info = Some (owner onlineInfo) \<and> decimals info = dec
              \<and> address info = mint
              \<and> Map_get (tokenMap m') mint = Some info
              \<and> extra (mintGroup m') = insert mint (extra (mintGroup m))"
    by (intro exI [of _ ?info] exI [of _ "add_extra m mint ?info"])
       (simp add: fullInfo_fields add_extra_frame)
qed

text \<open>
  C10. Whatever \<^verbatim>\<open>getTokenInfo\<close> returns, it leaves the token list, the \<open>official\<close> and
  \<open>jup\<close> sets, the extra list, the disabled flag and the client as they are; in the table
  only the entry of the requested address can change and to the \<open>extra\<close> set only that
  address can be added. So when the module does change (a lazy resolution), the address was
  not in the table before, is in the table and in \<open>extra\<close> afterwards, and the list returned by
  \<^verbatim>\<open>tokenList\<close> is still the one the last \<^verbatim>\<open>load\<close> built.
\<close>

theorem C10_getTokenInfo_frame:
  assumes "getTokenInfo e mint (m, c) wt = (r, (m', c'), wt')"
  shows "tokenList m' = tokenList m
     \<and> official (mintGroup m') = official (mintGroup m)
     \<and> jup (mintGroup m') = jup (mintGroup m)
     \<and> extraTokenList m' = extraTokenList m
     \<and> disabled m' = disabled m
     \<and> c' = c
     \<and> (\<forall>a. a \<noteq> mint \<longrightarrow> Map_get (tokenMap m') a = Map_get (tokenMap m) a)
     \<and> (extra (mintGroup m') = extra (mintGroup m)
         \<or> extra (mintGroup m') = insert mint (extra (mintGroup m)))
     \<and> (m' \<noteq> m \<longrightarrow> Map_get (tokenMap m) mint = None \<and> Map_get (tokenMap m') mint \<noteq> None
           \<and> mint \<in> extra (mintGroup m'))"
proof -
  from getTokenInfo_cases [OF assms] have c: "c' = c"
    and m: "m' = m \<or> (\<exists>t info. r = Inr info \<and> m' = add_extra m mint t \<and>
                  Map_get (tokenMap m) mint = None \<and> toLocaleUpperCase mint \<noteq> ''SOL'')"
    by simp_all
  from m show ?thesis
  proof
    assume "m' = m"
    with c show ?thesis by simp
  next
    assume "\<exists>t info. r = Inr info \<and> m' = add_extra m mint t \<and>
                  Map_get (tokenMap m) mint = None \<and> toLocaleUpperCase mint \<noteq> ''SOL''"
    then obtain t where "m' = add_extra m mint t" and "Map_get (tokenMap m) mint = None"
      by auto
    with c show ?thesis by (simp add: add_extra_frame)
  qed
qed


lemma getTokenInfo_log:
  assumes "getTokenInfo e mint (m, c) wt = (r, (m', c'), wt')"
  shows "\<exists>evs. snd wt' = snd wt @ evs \<and>
           (evs = [] \<or> evs = [GetTokenInfo [mint]]
            \<or> (\<exists>key. evs = [GetTokenInfo [mint], GetAccountInfo key]))"
  using assms
  by (auto simp add: getTokenInfo_def Let_def
      split: sum.splits prod.splits option.splits if_splits dest!: getTokenInfo_online_cases)

lemma getTokenInfo_hit:
  "mint \<noteq> [] \<Longrightarrow> Map_get (tokenMap m) mint = Some info \<Longrightarrow>
   getTokenInfo e mint (m, c) wt = (Inr info, (m, c), wt)"
  by (simp add: getTokenInfo_def)

lemma getTokenInfo_online_not_found:
  assumes "getTokenInfo_online e mint (m, c) wt = (Inl (Error_mint_address_not_found s), mc', wt')"
  shows "s = mint \<and> mc' = (m, c) \<and>
         (\<exists>conn key w2. connection_field c = Some conn \<and> new_PublicKey e mint = Inr key \<and>
            getAccountInfo conn key (fst wt) = (Inr None, w2) \<and>
            wt' = (w2, snd wt @ [GetAccountInfo key]))"
  using assms
  by (auto simp add: getTokenInfo_online_def connection_def Let_def
      split: sum.splits prod.splits option.splits)

lemma getTokenInfo_not_found:
  assumes "getTokenInfo e mint (m, c) wt = (Inl (Error_mint_address_not_found s), mc', wt')"
  shows "s = mint \<and> mc' = (m, c) \<and> Map_get (tokenMap m) mint = None \<and>
         (\<exists>res w1 conn key w2.
            getTokenInfo_api (api c) [mint] (fst wt) = (Inr res, w1) \<and> index0 res = None \<and>
            connection_field c = Some conn \<and> new_PublicKey e mint = Inr key \<and>
            getAccountInfo conn key w1 = (Inr None, w2) \<and>
            wt' = (w2, snd wt @ [GetTokenInfo [mint], GetAccountInfo key]))"
  using assms
  by (auto simp add: getTokenInfo_def Let_def
      split: sum.splits prod.splits option.splits if_splits
      dest!: getTokenInfo_online_not_found)

lemma getTokenInfo_api_rejects:
  "mint \<noteq> [] \<Longrightarrow> Map_get (tokenMap m) mint = None \<Longrightarrow> toLocaleUpperCase mint \<noteq> ''SOL'' \<Longrightarrow>
   getTokenInfo_api (api c) [mint] (fst wt) = (Inl err, w1) \<Longrightarrow>
   getTokenInfo e mint (m, c) wt = (Inl (Rejected err), (m, c), (w1, snd wt @ [GetTokenInfo [mint]]))"
  by (simp add: getTokenInfo_def)

lemma getTokenInfo_ledger_rejects:
  "mint \<noteq> [] \<Longrightarrow> Map_get (tokenMap m) mint = None \<Longrightarrow> toLocaleUpperCase mint \<noteq> ''SOL'' \<Longrightarrow>
   getTokenInfo_api (api c) [mint] (fst wt) = (Inr res, w1) \<Longrightarrow> index0 res = None \<Longrightarrow>
   connection_field c = Some conn \<Longrightarrow> new_PublicKey e mint = Inr key \<Longrightarrow>
   getAccountInfo conn key w1 = (Inl err, w2) \<Longrightarrow>
   getTokenInfo e mint (m, c) wt =
     (Inl (Rejected err), (m, c), (w2, snd wt @ [GetTokenInfo [mint], GetAccountInfo key]))"
  by (simp add: getTokenInfo_def getTokenInfo_online_def connection_def)

text \<open>
  C2 (as amended). \<^verbatim>\<open>getTokenInfo\<close> asks its tiers strictly in the order table, API, ledger:
  the calls it logs are none, or the API call alone, or the API call followed by one ledger
  call. A table hit returns the record without any call. "mint address not found" is raised
  only when the table missed, the API answered without a record and the ledger answered that
  the account does not exist, both calls having been made in this order. An error of the API
  is not swallowed: it reaches the caller and the ledger is not asked; an error of the ledger
  call reaches the caller as well.
\<close>

theorem C2_tiers_in_order:
  assumes "getTokenInfo e mint (m, c) wt = (r, mc', wt')"
  shows "(\<exists>evs. snd wt' = snd wt @ evs \<and>
           (evs = [] \<or> evs = [GetTokenInfo [mint]]
            \<or> (\<exists>key. evs = [GetTokenInfo [mint], GetAccountInfo key])))
     \<and> (\<forall>info. mint \<noteq> [] \<and> Map_get (tokenMap m) mint = Some info \<longrightarrow>
           r = Inr info \<and> wt' = wt)
     \<and> (\<forall>s. r = Inl (Error_mint_address_not_found s) \<longrightarrow>
           s = mint \<and> Map_get (tokenMap m) mint = None \<and>
           (\<exists>res w1 conn key w2.
              getTokenInfo_api (api c) [mint] (fst wt) = (Inr res, w1) \<and> index0 res = None \<and>
              connection_field c = Some conn \<and> new_PublicKey e mint = Inr key \<and>
              getAccountInfo conn key w1 = (Inr None, w2) \<and>
              wt' = (w2, snd wt @ [GetTokenInfo [mint], GetAccountInfo key])))
     \<and> (\<forall>err w1. mint \<noteq> [] \<and> Map_get (tokenMap m) mint = None \<and>
           toLocaleUpperCase mint \<noteq> ''SOL'' \<and>
           getTokenInfo_api (api c) [mint] (fst wt) = (Inl err, w1) \<longrightarrow>
           r = Inl (Rejected err) \<and> wt' = (w1, snd wt @ [GetTokenInfo [mint]]))
     \<and> (\<forall>res w1 conn key err w2. mint \<noteq> [] \<and> Map_get (tokenMap m) mint = None \<and>
           toLocaleUpperCase mint \<noteq> ''SOL'' \<and>
           getTokenInfo_api (api c) [mint] (fst wt) = (Inr res, w1) \<and> index0 res = None \<and>
           connection_field c = Some conn \<and> new_PublicKey e mint = Inr key \<and>
           getAccountInfo conn key w1 = (Inl err, w2) \<longrightarrow>
           r = Inl (Rejected err))"
proof (intro conjI allI impI)
  obtain m' c' where mc': "mc' = (m', c')" by (cases mc')
  show "\<exists>evs. snd wt' = snd wt @ evs \<and>
           (evs = [] \<or> evs = [GetTokenInfo [mint]]
            \<or> (\<exists>key. evs = [GetTokenInfo [mint], GetAccountInfo key]))"
    using assms unfolding mc' by (rule getTokenInfo_log)
next
  fix info
  assume "mint \<noteq> [] \<and> Map_get (tokenMap m) mint = Some info"
  then have "getTokenInfo e mint (m, c) wt = (Inr info, (m, c), wt)"
    by (simp add: getTokenInfo_hit)
  with assms show "r = Inr info" "wt' = wt" by simp_all
next
  fix s
  assume "r = Inl (Error_mint_address_not_found s)"
  with assms have *: "getTokenInfo e mint (m, c) wt =
      (Inl (Error_mint_address_not_found s), mc', wt')" by simp
  from getTokenInfo_not_found [OF *]
  show "s = mint" "Map_get (tokenMap m) mint = None"
    "\<exists>res w1 conn key w2.
              getTokenInfo_api (api c) [mint] (fst wt) = (Inr res, w1) \<and> index0 res = None \<and>
              connection_field c = Some conn \<and> new_PublicKey e mint = Inr key \<and>
              getAccountInfo conn key w1 = (Inr None, w2) \<and>
              wt' = (w2, snd wt @ [GetTokenInfo [mint], GetAccountInfo key])"
    by simp_all
next
  fix err w1
  assume "mint \<noteq> [] \<and> Map_get (tokenMap m) mint = None \<and>
           toLocaleUpperCase mint \<noteq> ''SOL'' \<and>
           getTokenInfo_api (api c) [mint] (fst wt) = (Inl err, w1)"
  then have "getTokenInfo e mint (m, c) wt =
      (Inl (Rejected err), (m, c), (w1, snd wt @ [GetTokenInfo [mint]]))"
    by (simp add: getTokenInfo_api_rejects)
  with assms show "r = Inl (Rejected err)" "wt' = (w1, snd wt @ [GetTokenInfo [mint]])"
    by simp_all
next
  fix res w1 conn key err w2
  assume "mint \<noteq> [] \<and> Map_get (tokenMap m) mint = None \<and>
           toLocaleUpperCase mint \<noteq> ''SOL'' \<and>
           getTokenInfo_api (api c) [mint] (fst wt) = (Inr res, w1) \<and> index0 res = None \<and>
           connection_field c = Some conn \<and> new_PublicKey e mint = Inr key \<and>
           getAccountInfo conn key w1 = (Inl err, w2)"
  then have "getTokenInfo e mint (m, c) wt =
     (Inl (Rejected err), (m, c), (w2, snd wt @ [GetTokenInfo [mint], GetAccountInfo key]))"
    by (simp add: getTokenInfo_ledger_rejects)
  with assms show "r = Inl (Rejected err)" by simp
qed

lemma length_toLocaleUpperCase: "length (toLocaleUpperCase s) = length s"
  by (simp add: toLocaleUpperCase_def)

lemma not_alias: "length s \<noteq> 3 \<Longrightarrow> toLocaleUpperCase s \<noteq> ''SOL''"
  using length_toLocaleUpperCase [of s] by auto

lemma demo_not_alias:
  "toLocaleUpperCase demo_mint \<noteq> ''SOL''" "toLocaleUpperCase demo_absent \<noteq> ''SOL''"
  by (rule not_alias, simp add: demo_mint_def demo_absent_def)+

lemma demo_ledger:
  "demo_mint \<noteq> []" "demo_absent \<noteq> []"
  "Map_get (tokenMap (demo_module [])) a = None"
  "getTokenInfo_api (api (demo_client (api_up [] []) [])) [a] (fst (0, [])) = (Inr [], 5)"
  "index0 [] = None"
  "connection_field (demo_client (api_up [] []) []) = Some demo_connection"
  "new_PublicKey demo_env demo_mint = Inr demo_mint"
  "new_PublicKey demo_env demo_absent = Inr demo_absent"
  "getAccountInfo demo_connection demo_mint 5 = (Inr (Some demo_account), 12)"
  "getAccountInfo demo_connection demo_absent 5 = (Inr None, 12)"
  "MintLayout_decode demo_env (account_data demo_account) = Inr 9"
  by (simp_all add: demo_defs demo_mint_def demo_absent_def Map_get_def index0_def
      demo_account_def)


theorem C6_ledger_tier_witness:
  "fst (getTokenInfo demo_env demo_absent (demo_module [], demo_client (api_up [] []) []) (0, []))
     = Inl (Error_mint_address_not_found demo_absent)
   \<and> (\<exists>info m'.
        getTokenInfo demo_env demo_mint (demo_module [], demo_client (api_up [] []) []) (0, []) =
          (Inr info, (m', demo_client (api_up [] []) []),
           (12, [GetTokenInfo [demo_mint], GetAccountInfo demo_mint]))
        \<and> symbol info = ''So1111'' \<and> name info = ''So1111'' \<and> tags info = []
        \<and> priority info = Some 0 \<and> type info = Some ''unknown''
        \<and> programId info = Some TOKEN_PROGRAM_ID \<and> decimals info = 9
        \<and> address info = demo_mint
        \<and> Map_get (tokenMap m') demo_mint = Some info
        \<and> extra (mintGroup m') = {demo_mint})"
proof
  show "fst (getTokenInfo demo_env demo_absent (demo_module [], demo_client (api_up [] []) []) (0, []))
     = Inl (Error_mint_address_not_found demo_absent)"
    using C6_ledger_tier [OF demo_ledger(2) demo_ledger(3) demo_not_alias(2) demo_ledger(4)
        demo_ledger(5) demo_ledger(6) demo_ledger(8) demo_ledger(10)]
    by simp
next
  have own: "owner demo_account = TOKEN_PROGRAM_ID" "take 6 demo_mint = ''So1111''"
    "extra (mintGroup (demo_module [])) = {}"
    by (simp_all add: demo_account_def demo_mint_def demo_module_def)
  from C6_ledger_tier [OF demo_ledger(1) demo_ledger(3) demo_not_alias(1) demo_ledger(4)
        demo_ledger(5) demo_ledger(6) demo_ledger(7) demo_ledger(9)] demo_ledger(11)
  show "\<exists>info m'.
        getTokenInfo demo_env demo_mint (demo_module [], demo_client (api_up [] []) []) (0, []) =
          (Inr info, (m', demo_client (api_up [] []) []),
           (12, [GetTokenInfo [demo_mint], GetAccountInfo demo_mint]))
        \<and> symbol info = ''So1111'' \<and> name info = ''So1111'' \<and> tags info = []
        \<and> priority info = Some 0 \<and> type info = Some ''unknown''
        \<and> programId info = Some TOKEN_PROGRAM_ID \<and> decimals info = 9
        \<and> address info = demo_mint
        \<and> Map_get (tokenMap m') demo_mint = Some info
        \<and> extra (mintGroup m') = {demo_mint}"
    by (simp add: own)
qed

lemma demo_absent_run:
  "getTokenInfo demo_env demo_absent (demo_module [], demo_client (api_up [] []) []) (0, []) =
     (Inl (Error_mint_address_not_found demo_absent),
      (demo_module [], demo_client (api_up [] []) []),
      (12, [GetTokenInfo [demo_absent], GetAccountInfo demo_absent]))"
  using demo_ledger demo_not_alias
  by (simp add: getTokenInfo_def getTokenInfo_online_def connection_def index0_def)

theorem C2_tiers_in_order_witness:
  "Map_get (tokenMap (demo_module [])) demo_absent = None
   \<and> (\<exists>res w1 conn key w2.
        getTokenInfo_api (api (demo_client (api_up [] []) [])) [demo_absent] 0 = (Inr res, w1) \<and>
        index0 res = None \<and>
        connection_field (demo_client (api_up [] []) []) = Some conn \<and>
        new_PublicKey demo_env demo_absent = Inr key \<and>
        getAccountInfo conn key w1 = (Inr None, w2) \<and>
        w2 = 12 \<and> key = demo_absent)"
  using C2_tiers_in_order [OF demo_absent_run, THEN conjunct2, THEN conjunct2, THEN conjunct1,
        rule_format, OF refl]
  by simp

text \<open>
  C2 as stated fails: with an API that rejects the request, \<^verbatim>\<open>getTokenInfo\<close> of a mint that
  the ledger holds fails with the API's error \<open>timeout\<close>, which is not "mint address not
  found", and the ledger, which would have answered, is never asked.
\<close>

theorem C2_api_error_escapes:
  "getTokenInfo demo_env demo_mint (demo_module [], demo_client api_down []) (0, []) =
     (Inl (Rejected (Rejection ''timeout'')), (demo_module [], demo_client api_down []),
      (5, [GetTokenInfo [demo_mint]]))
   \<and> getAccountInfo demo_connection demo_mint 5 = (Inr (Some demo_account), 12)"
proof -
  have "getTokenInfo_api (api (demo_client api_down [])) [demo_mint] (fst (0, [])) =
      (Inl (Rejection ''timeout''), 5)"
    by (simp add: demo_defs)
  from getTokenInfo_api_rejects [OF demo_ledger(1) demo_ledger(3) demo_not_alias(1) this]
  show ?thesis
    by (simp add: demo_ledger)
qed

theorem C10_getTokenInfo_frame_witness:
  "tokenList (add_extra (demo_module []) demo_mint (fullInfo demo_mint demo_account 9)) = []
   \<and> Map_get (tokenMap (add_extra (demo_module []) demo_mint (fullInfo demo_mint demo_account 9)))
        demo_mint \<noteq> None
   \<and> demo_mint \<in> extra (mintGroup (add_extra (demo_module []) demo_mint
        (fullInfo demo_mint demo_account 9)))"
proof -
  have run: "getTokenInfo demo_env demo_mint (demo_module [], demo_client (api_up [] []) []) (0, []) =
     (Inr (fullInfo demo_mint demo_account 9),
      (add_extra (demo_module []) demo_mint (fullInfo demo_mint demo_account 9),
       demo_client (api_up [] []) []),
      (12, [GetTokenInfo [demo_mint], GetAccountInfo demo_mint]))"
    using demo_ledger demo_not_alias
    by (simp add: getTokenInfo_def getTokenInfo_online_def connection_def index0_def Let_def)
  have ne: "add_extra (demo_module []) demo_mint (fullInfo demo_mint demo_account 9) \<noteq> demo_module []"
    by (simp add: add_extra_def demo_module_def)
  have "tokenList (demo_module []) = []"
    by (simp add: demo_module_def)
  with C10_getTokenInfo_frame [OF run] ne show ?thesis
    by simp
qed

section \<open>The states a token module can reach\<close>









section \<open>Properties of \<^verbatim>\<open>endlessRetry\<close>\<close>

lemma eq_undefined_Val: "\<not> eq_undefined r \<Longrightarrow> \<exists>v. r = Val v"
  by (cases r) (simp_all add: eq_undefined_def)

lemma endlessRetry_loop_done:
  "endlessRetry_loop e nm call i (Val v) wt = Some (Inr (Val v), wt)"
  by (subst endlessRetry_loop.simps) (simp add: eq_undefined_def)

lemma endlessRetry_loop_rejected:
  "eq_undefined result \<Longrightarrow> call (fst wt) = (Inl err, w') \<Longrightarrow>
   endlessRetry_loop e nm call i result wt =
     endlessRetry_loop e nm call i result (sleep e i w', snd wt @ [Invoke nm, Sleep i])"
  by (subst endlessRetry_loop.simps) simp

lemma endlessRetry_loop_resolved:
  "eq_undefined result \<Longrightarrow> call (fst wt) = (Inr v, w') \<Longrightarrow>
   endlessRetry_loop e nm call i result wt =
     endlessRetry_loop e nm call i v (w', snd wt @ [Invoke nm])"
  by (subst endlessRetry_loop.simps) simp

lemma endlessRetry_loop_after_fruitless:
  "fruitless_attempts e nm call i n wt = Some wt1 \<Longrightarrow> eq_undefined result \<Longrightarrow>
   call (fst wt1) = (Inr (Val v), w2) \<Longrightarrow>
   endlessRetry_loop e nm call i result wt = Some (Inr (Val v), (w2, snd wt1 @ [Invoke nm]))"
proof (induction n arbitrary: wt result)
  case 0
  then show ?case
    by (simp add: endlessRetry_loop_resolved endlessRetry_loop_done)
next
  case (Suc n)
  obtain out w' where c: "call (fst wt) = (out, w')"
    by (cases "call (fst wt)")
  show ?case
  proof (cases out)
    case (Inl err)
    with Suc.prems c have "fruitless_attempts e nm call i n
        (sleep e i w', snd wt @ [Invoke nm, Sleep i]) = Some wt1"
      by simp
    from Suc.IH [OF this Suc.prems(2) Suc.prems(3)] c Inl Suc.prems(2) show ?thesis
      by (simp add: endlessRetry_loop_rejected)
  next
    case (Inr x)
    with Suc.prems c have x: "eq_undefined x"
      and "fruitless_attempts e nm call i n (w', snd wt @ [Invoke nm]) = Some wt1"
      by (simp_all split: if_splits)
    from Suc.IH [OF this(2) x Suc.prems(3)] c Inr Suc.prems(2) show ?thesis
      by (simp add: endlessRetry_loop_resolved)
  qed
qed

lemma endlessRetry_loop_value:
  assumes "endlessRetry_loop e nm call i result wt = Some y"
  shows "\<exists>v. fst y = Inr (Val v)"
proof (rule endlessRetry_loop.raw_induct
    [where P = "\<lambda>e nm call i result wt y. \<exists>v. fst y = Inr (Val v)", OF _ assms], goal_cases)
  case (1 loop e nm call i result wt y)
  show ?case
  proof (cases "eq_undefined result")
    case True
    with "1"(2) show ?thesis
      by (auto split: prod.splits sum.splits dest: "1"(1))
  next
    case False
    with "1"(2) eq_undefined_Val [OF False] show ?thesis
      by auto
  qed
qed

text \<open>Which of \<^verbatim>\<open>undefined\<close> and \<^verbatim>\<open>null\<close> the variable holds makes no difference.\<close>

lemma endlessRetry_loop_nullish_Some:
  assumes "endlessRetry_loop e nm call i r wt = Some y"
  shows "endlessRetry_loop e nm call i r wt = Some y \<and>
   (eq_undefined r \<longrightarrow> (\<forall>r'. eq_undefined r' \<longrightarrow> endlessRetry_loop e nm call i r' wt = Some y))"
proof (rule endlessRetry_loop.raw_induct
    [where P = "\<lambda>e nm call i r wt y. endlessRetry_loop e nm call i r wt = Some y \<and>
       (eq_undefined r \<longrightarrow>
         (\<forall>r'. eq_undefined r' \<longrightarrow> endlessRetry_loop e nm call i r' wt = Some y))",
     OF _ assms], goal_cases)
  case (1 loop e nm call i r wt y)
  have main: "endlessRetry_loop e nm call i r' wt = Some y"
    if r: "eq_undefined r" and r': "eq_undefined r'" for r'
  proof -
    obtain out w' where c: "call (fst wt) = (out, w')"
      by (cases "call (fst wt)")
    show ?thesis
    proof (cases out)
      case (Inl err)
      with "1"(2) r c have "loop e nm call i r (sleep e i w', snd wt @ [Invoke nm, Sleep i]) = Some y"
        by simp
      from "1"(1) [OF this] r r' c Inl show ?thesis
        by (simp add: endlessRetry_loop_rejected)
    next
      case (Inr v)
      with "1"(2) r c have "loop e nm call i v (w', snd wt @ [Invoke nm]) = Some y"
        by simp
      from "1"(1) [OF this] r' c Inr show ?thesis
        by (simp add: endlessRetry_loop_resolved)
    qed
  qed
  show ?case
  proof (cases "eq_undefined r")
    case True
    with main show ?thesis by simp
  next
    case False
    with "1"(2) have "y = (Inr r, wt)" by simp
    with False show ?thesis
      by (subst endlessRetry_loop.simps) simp
  qed
qed

lemma endlessRetry_loop_nullish:
  assumes "eq_undefined r" and "eq_undefined r'"
  shows "endlessRetry_loop e nm call i r wt = endlessRetry_loop e nm call i r' wt"
proof (cases "endlessRetry_loop e nm call i r wt")
  case (Some y)
  with endlessRetry_loop_nullish_Some [OF Some] assms show ?thesis by simp
next
  case None
  show ?thesis
  proof (cases "endlessRetry_loop e nm call i r' wt")
    case (Some y)
    with endlessRetry_loop_nullish_Some [OF Some] assms None show ?thesis by simp
  next
    case None': None
    with None show ?thesis by simp
  qed
qed

text \<open>
  C5 (as amended). After any number of attempts that produced no value, the first attempt
  that resolves to a value other than \<^verbatim>\<open>undefined\<close> and \<^verbatim>\<open>null\<close> ends the loop, and
  \<^verbatim>\<open>endlessRetry\<close> returns that value without invoking the operation again. A rejected
  attempt is followed by a pause of \<open>interval\<close> milliseconds (1000 when none is given) and a
  new attempt; an attempt that resolves to \<^verbatim>\<open>undefined\<close> or \<^verbatim>\<open>null\<close> is followed by a new
  attempt at once, without a pause. Whenever \<^verbatim>\<open>endlessRetry\<close> returns, it returns a value,
  never an error.
\<close>

theorem C5_endlessRetry_first_value:
  "(fruitless_attempts e nm call (interval_or_default interval) n wt = Some wt1 \<and>
      call (fst wt1) = (Inr (Val v), w2) \<longrightarrow>
      endlessRetry e nm call interval wt = Some (Inr (Val v), (w2, snd wt1 @ [Invoke nm])))
   \<and> (call (fst wt) = (Inl err, w') \<longrightarrow>
      endlessRetry e nm call interval wt =
        endlessRetry e nm call interval
          (sleep e (interval_or_default interval) w',
           snd wt @ [Invoke nm, Sleep (interval_or_default interval)]))
   \<and> (call (fst wt) = (Inr u, w') \<and> eq_undefined u \<longrightarrow>
      endlessRetry e nm call interval wt =
        endlessRetry e nm call interval (w', snd wt @ [Invoke nm]))
   \<and> (endlessRetry e nm call interval wt = Some (r, wt') \<longrightarrow> (\<exists>x. r = Inr (Val x)))
   \<and> interval_or_default None = 1000"
proof (intro conjI impI)
  assume a: "fruitless_attempts e nm call (interval_or_default interval) n wt = Some wt1 \<and>
      call (fst wt1) = (Inr (Val v), w2)"
  have u: "eq_undefined Undefined"
    by (simp add: eq_undefined_def)
  show "endlessRetry e nm call interval wt = Some (Inr (Val v), (w2, snd wt1 @ [Invoke nm]))"
    unfolding endlessRetry_def
    by (rule endlessRetry_loop_after_fruitless [OF a [THEN conjunct1] u a [THEN conjunct2]])
next
  assume "call (fst wt) = (Inl err, w')"
  then show "endlessRetry e nm call interval wt =
        endlessRetry e nm call interval
          (sleep e (interval_or_default interval) w',
           snd wt @ [Invoke nm, Sleep (interval_or_default interval)])"
    unfolding endlessRetry_def
    by (intro endlessRetry_loop_rejected) (simp_all add: eq_undefined_def)
next
  assume a: "call (fst wt) = (Inr u, w') \<and> eq_undefined u"
  then have "endlessRetry_loop e nm call (interval_or_default interval) Undefined wt =
      endlessRetry_loop e nm call (interval_or_default interval) u (w', snd wt @ [Invoke nm])"
    by (intro endlessRetry_loop_resolved) (simp_all add: eq_undefined_def)
  also have "\<dots> =
      endlessRetry_loop e nm call (interval_or_default interval) Undefined (w', snd wt @ [Invoke nm])"
    using a by (intro endlessRetry_loop_nullish) (simp_all add: eq_undefined_def)
  finally show "endlessRetry e nm call interval wt =
        endlessRetry e nm call interval (w', snd wt @ [Invoke nm])"
    by (simp add: endlessRetry_def)
next
  assume "endlessRetry e nm call interval wt = Some (r, wt')"
  from endlessRetry_loop_value [OF this [unfolded endlessRetry_def]]
  show "\<exists>x. r = Inr (Val x)" by simp
next
  show "interval_or_default None = 1000"
    by (simp add: interval_or_default_def)
qed

theorem C5_endlessRetry_first_value_witness:
  "endlessRetry demo_env ''op'' demo_call None (0, []) =
     Some (Inr (Val 7), (1015, [Invoke ''op'', Sleep 1000, Invoke ''op'', Invoke ''op'']))"
proof -
  have d: "interval_or_default None = 1000"
    by (simp add: interval_or_default_def)
  have "fruitless_attempts demo_env ''op'' demo_call (interval_or_default None) (Suc (Suc 0)) (0, [])
      = Some (1010, [Invoke ''op'', Sleep 1000, Invoke ''op''])
    \<and> demo_call (fst (1010 :: int, [Invoke ''op'', Sleep 1000, Invoke ''op''])) = (Inr (Val 7), 1015)"
    by (simp add: d demo_call_def demo_env_def eq_undefined_def)
  from C5_endlessRetry_first_value [where e = demo_env and nm = "''op''" and call = demo_call
      and interval = None and n = "Suc (Suc 0)" and wt = "(0, [])"
      and ?wt1.0 = "(1010, [Invoke ''op'', Sleep 1000, Invoke ''op''])" and v = 7
      and ?w2.0 = 1015, THEN conjunct1, THEN mp, OF this]
  show ?thesis by simp
qed

text \<open>
  C5 as stated fails: started at time 1005, the first invocation succeeds (it resolves to
  \<^verbatim>\<open>null\<close>), yet \<^verbatim>\<open>endlessRetry\<close> does not return that value; it invokes the operation a
  second time and returns 7.
\<close>

theorem C5_first_success_not_returned:
  "fst (demo_call 1005) = Inr Null
   \<and> endlessRetry demo_env ''op'' demo_call None (1005, []) =
       Some (Inr (Val 7), (1015, [Invoke ''op'', Invoke ''op'']))"
proof -
  have 1: "demo_call 1005 = (Inr Null, 1010)" and 2: "demo_call 1010 = (Inr (Val 7), 1015)"
    by (simp_all add: demo_call_def)
  have "endlessRetry_loop demo_env ''op'' demo_call 1000 Undefined (1005, []) =
      endlessRetry_loop demo_env ''op'' demo_call 1000 Null (1010, [Invoke ''op''])"
    using endlessRetry_loop_resolved [of Undefined demo_call "(1005, [])" Null 1010] 1
    by (simp add: eq_undefined_def)
  also have "\<dots> = endlessRetry_loop demo_env ''op'' demo_call 1000 (Val 7)
      (1015, [Invoke ''op'', Invoke ''op''])"
    using endlessRetry_loop_resolved [of Null demo_call "(1010, [Invoke ''op''])" "Val 7" 1015] 2
    by (simp add: eq_undefined_def)
  finally show ?thesis
    by (simp add: 1 endlessRetry_def interval_or_default_def endlessRetry_loop_done)
qed

section \<open>Properties of the layout decoder\<close>

lemma unat_byte_less: "unat (b :: byte) < 256"
  using unsigned_less [of b, where ?'a = nat] by simp

lemma le_roundtrip: "le_encode (length bs) (le_decode bs) = bs"
proof (induction bs)
  case Nil
  show ?case by simp
next
  case (Cons b bs)
  have "(unat b + 256 * le_decode bs) mod 256 = unat b"
    using unat_byte_less [of b] by simp
  moreover have "(unat b + 256 * le_decode bs) div 256 = le_decode bs"
    using unat_byte_less [of b] by simp
  ultimately show ?case
    using Cons.IH by simp
qed

lemma encode_scalar_roundtrip:
  assumes "codec_inverts codec" and "length bs = width k" and "canonical_scalar k bs"
  shows "encode_scalar codec k (decode_scalar codec k bs) = Some bs"
proof (cases k)
  case (Uint n)
  with assms(2) le_roundtrip [of bs] show ?thesis
    by (simp add: encode_scalar_def decode_scalar_def width_def)
next
  case Boolean
  with assms(3) show ?thesis
    by (auto simp add: encode_scalar_def decode_scalar_def canonical_scalar_def)
next
  case PublicKeyKind
  with assms(1,2) show ?thesis
    by (simp add: encode_scalar_def decode_scalar_def width_def codec_inverts_def)
next
  case (BlobKind n)
  with assms(2) show ?thesis
    by (simp add: encode_scalar_def decode_scalar_def width_def)
qed

lemma encode_all_roundtrip:
  assumes "codec_inverts codec"
  shows "length bs = width k * r \<Longrightarrow> list_all (canonical_scalar k) (chunks (width k) r bs) \<Longrightarrow>
   encode_all codec k (map (decode_scalar codec k) (chunks (width k) r bs)) = Some bs"
proof (induction r arbitrary: bs)
  case 0
  then show ?case by simp
next
  case (Suc r)
  from Suc.prems(1) have l1: "length (take (width k) bs) = width k"
    and l2: "length (drop (width k) bs) = width k * r"
    by simp_all
  from Suc.prems(2) have c1: "canonical_scalar k (take (width k) bs)"
    and c2: "list_all (canonical_scalar k) (chunks (width k) r (drop (width k) bs))"
    by simp_all
  from encode_scalar_roundtrip [OF assms l1 c1] Suc.IH [OF l2 c2] show ?case
    by simp
qed

lemma length_chunks: "length (chunks w r bs) = r"
  by (induction r arbitrary: bs) simp_all

lemma encode_field_roundtrip:
  assumes "codec_inverts codec" and "length bs = field_width f" and "field_name f = Some n"
    and "booleans_field f bs"
  shows "encode_field codec f (decode_field codec f bs) = Some bs"
proof (cases "repeat f")
  case None
  with assms show ?thesis
    by (simp add: encode_field_def decode_field_def field_width_def booleans_field_def
        encode_scalar_roundtrip)
next
  case (Some r)
  with assms(2,3,4) have "length bs = width (field_kind f) * r"
    and "list_all (canonical_scalar (field_kind f)) (chunks (width (field_kind f)) r bs)"
    by (simp_all add: field_width_def booleans_field_def)
  from encode_all_roundtrip [OF assms(1) this] Some show ?thesis
    by (simp add: encode_field_def decode_field_def length_chunks)
qed

lemma names_Cons:
  "names (f # fs) = (case field_name f of None \<Rightarrow> [] | Some n \<Rightarrow> [n]) @ names fs"
  by (simp add: names_def)

lemma totalWidth_Cons: "totalWidth (f # fs) = field_width f + totalWidth fs"
  by (simp add: totalWidth_def)

text \<open>Decoding and encoding again a tail of the schema, with the values of the fields before
  it: the named fields come back as they were, the padding fields as zeros.\<close>

lemma encode_decode_fields:
  assumes "codec_inverts codec"
  shows "distinct (names fs) \<Longrightarrow> fst ` set pre \<inter> set (names fs) = {} \<Longrightarrow>
   length bs = totalWidth fs \<Longrightarrow> booleans_canonical fs bs \<Longrightarrow>
   encode_fields codec fs (pre @ decode_fields codec fs bs) = Some (zero_unnamed fs bs)"
proof (induction fs arbitrary: pre bs)
  case Nil
  then show ?case by simp
next
  case (Cons f fs)
  let ?w = "field_width f"
  let ?here = "take ?w bs" and ?rest = "drop ?w bs"
  from Cons.prems(3) have lh: "length ?here = ?w" and lr: "length ?rest = totalWidth fs"
    by (simp_all add: totalWidth_Cons)
  from Cons.prems(4) have ch: "booleans_field f ?here" and cr: "booleans_canonical fs ?rest"
    by simp_all
  show ?case
  proof (cases "field_name f")
    case None
    with Cons.prems(1,2) have d: "distinct (names fs)" "fst ` set pre \<inter> set (names fs) = {}"
      by (simp_all add: names_Cons)
    from Cons.IH [OF d lr cr] None show ?thesis
      by (simp add: Let_def)
  next
    case (Some n)
    let ?v = "decode_field codec f ?here"
    from Cons.prems(1,2) Some have d: "distinct (names fs)"
      and fresh: "n \<notin> fst ` set pre" "n \<notin> set (names fs)"
      and dis: "fst ` set pre \<inter> set (names fs) = {}"
      by (auto simp add: names_Cons)
    from fresh(1) have look: "map_of (pre @ (n, ?v) # decode_fields codec fs ?rest) n = Some ?v"
      by (simp add: map_of_eq_None_iff [THEN iffD2] map_add_def)
    have pre': "fst ` set (pre @ [(n, ?v)]) \<inter> set (names fs) = {}"
      using dis fresh(2) by auto
    from Cons.IH [OF d pre' lr cr] have tail:
      "encode_fields codec fs (pre @ (n, ?v) # decode_fields codec fs ?rest) =
         Some (zero_unnamed fs ?rest)"
      by simp
    from encode_field_roundtrip [OF assms lh Some ch] look tail Some show ?thesis
      by (simp add: Let_def)
  qed
qed

lemma prefix_body_width: "totalWidth sch = prefix_width sch + totalWidth (body sch)"
  by (cases sch) (simp_all add: prefix_width_def body_def totalWidth_def)

lemma prefix_body_names: "names (body sch) = names sch"
  by (cases sch) (auto simp add: body_def names_def is_prefix_def split: kind.splits)

lemma prefix_body_booleans:
  "booleans_canonical sch bs \<Longrightarrow> booleans_canonical (body sch) (drop (prefix_width sch) bs)"
  by (cases sch) (simp_all add: body_def prefix_width_def)

text \<open>The round trip of any buffer of the right width with canonical booleans.\<close>

lemma roundtrip_zero_padding:
  assumes "codec_inverts codec" and "distinct (names sch)"
    and "length buffer = totalWidth sch" and "booleans_canonical sch buffer"
  shows "decode codec sch buffer =
           Inr \<lparr> discriminator = take (prefix_width sch) buffer,
                 named_values = decode_fields codec (body sch) (drop (prefix_width sch) buffer) \<rparr>"
    and "encode codec sch
           \<lparr> discriminator = take (prefix_width sch) buffer,
             named_values = decode_fields codec (body sch) (drop (prefix_width sch) buffer) \<rparr> =
         Some (zero_padding sch buffer)"
proof -
  show "decode codec sch buffer =
           Inr \<lparr> discriminator = take (prefix_width sch) buffer,
                 named_values = decode_fields codec (body sch) (drop (prefix_width sch) buffer) \<rparr>"
    using assms(3) by (simp add: decode_def)
  have d: "distinct (names (body sch))"
    using assms(2) by (simp add: prefix_body_names)
  have e: "fst ` set ([] :: Values) \<inter> set (names (body sch)) = {}"
    by simp
  have l: "length (drop (prefix_width sch) buffer) = totalWidth (body sch)"
    using assms(3) prefix_body_width [of sch] by simp
  have p: "length (take (prefix_width sch) buffer) = prefix_width sch"
    using assms(3) prefix_body_width [of sch] by simp
  from encode_decode_fields [OF assms(1) d e l prefix_body_booleans [OF assms(4)]] p
  show "encode codec sch
           \<lparr> discriminator = take (prefix_width sch) buffer,
             named_values = decode_fields codec (body sch) (drop (prefix_width sch) buffer) \<rparr> =
         Some (zero_padding sch buffer)"
    by (simp add: encode_def zero_padding_def)
qed

lemma plain_codec_inverts: "codec_inverts plain_codec"
proof -
  have "of_nat (of_char (char_of (unat b)) :: nat) = b" for b :: byte
    using unat_byte_less [of b] by simp
  then show ?thesis
    by (simp add: codec_inverts_def plain_codec_def map_idI)
qed

lemmas field_defs =
  field_width_def width_def blob_def u8_def u16_def u64_def u128_def bool_def publicKey_def
  seq_def

lemma layout_widths:
  "totalWidth CpmmConfigInfoLayout = 236" "totalWidth CpmmPoolInfoLayout = 637"
  by (simp_all add: CpmmConfigInfoLayout_def CpmmPoolInfoLayout_def struct_def totalWidth_def
      field_defs)

lemma layout_names:
  "distinct (names CpmmConfigInfoLayout)" "distinct (names CpmmPoolInfoLayout)"
  by (simp_all add: CpmmConfigInfoLayout_def CpmmPoolInfoLayout_def struct_def names_def
      field_defs)

lemma layout_prefix:
  "prefix_width CpmmConfigInfoLayout = 8" "prefix_width CpmmPoolInfoLayout = 8"
  by (simp_all add: CpmmConfigInfoLayout_def CpmmPoolInfoLayout_def struct_def prefix_width_def
      is_prefix_def field_defs)

text \<open>The scenario of the specification: 8 bytes of padding, then \<open>bump = 5\<close>, \<open>index = 10\<close>
  and \<open>fee = 1000\<close>.\<close>

lemma decode_scenario:
  "decode plain_codec (struct [blob 8, u8 (Some ''bump''), u16 (Some ''index''), u64 (Some ''fee'')])
     (replicate 8 0 @ [5] @ [10, 0] @ [232, 3, 0, 0, 0, 0, 0, 0]) =
   Inr \<lparr> discriminator = replicate 8 0,
         named_values = [(''bump'', Num 5), (''index'', Num 10), (''fee'', Num 1000)] \<rparr>"
  by (simp add: decode_def struct_def totalWidth_def field_defs decode_field_def
      decode_scalar_def Let_def prefix_width_def body_def is_prefix_def)

lemma layout_bodies:
  "body CpmmConfigInfoLayout = tl CpmmConfigInfoLayout"
  "body CpmmPoolInfoLayout = tl CpmmPoolInfoLayout"
  by (simp_all add: CpmmConfigInfoLayout_def CpmmPoolInfoLayout_def struct_def body_def
      is_prefix_def field_defs)

lemma booleans_chunks_zero:
  "list_all (canonical_scalar k) (chunks (width k) r (replicate (width k * r) 0))"
proof (induction r)
  case 0
  show ?case by simp
next
  case (Suc r)
  have "canonical_scalar k (replicate (width k) 0)"
    by (cases k) (simp_all add: canonical_scalar_def width_def)
  with Suc show ?case
    by (simp add: min_def)
qed

text \<open>The buffer of zeros has canonical booleans and zero padding.\<close>

lemma booleans_canonical_zero: "booleans_canonical sch (replicate (totalWidth sch) 0)"
proof (induction sch)
  case Nil
  show ?case by simp
next
  case (Cons f fs)
  have "booleans_field f (replicate (field_width f) 0)"
  proof (cases "field_name f")
    case None
    then show ?thesis by (simp add: booleans_field_def)
  next
    case (Some n)
    show ?thesis
    proof (cases "repeat f")
      case None
      have "canonical_scalar (field_kind f) (replicate (width (field_kind f)) 0)"
        by (cases "field_kind f") (simp_all add: canonical_scalar_def width_def)
      with Some None show ?thesis
        by (simp add: booleans_field_def field_width_def)
    next
      case (Some r)
      with \<open>field_name f = Some n\<close> booleans_chunks_zero [of "field_kind f" r] show ?thesis
        by (simp add: booleans_field_def field_width_def)
    qed
  qed
  with Cons show ?case
    by (simp add: totalWidth_Cons min_def)
qed

lemma zero_unnamed_zero:
  "zero_unnamed sch (replicate (totalWidth sch) 0) = replicate (totalWidth sch) 0"
proof (induction sch)
  case Nil
  show ?case by (simp add: totalWidth_def)
next
  case (Cons f fs)
  then show ?case
    by (simp add: totalWidth_Cons min_def replicate_add split: option.splits)
qed

lemma zero_padding_zero:
  "zero_padding sch (replicate (totalWidth sch) 0) = replicate (totalWidth sch) 0"
proof -
  have w: "totalWidth sch = prefix_width sch + totalWidth (body sch)"
    by (rule prefix_body_width)
  show ?thesis
    using zero_unnamed_zero [of "body sch"]
    by (simp add: zero_padding_def w min_def replicate_add)
qed

lemma demo_prefixed_bytes_facts:
  "length demo_prefixed_bytes = totalWidth CpmmConfigInfoLayout"
  "booleans_canonical CpmmConfigInfoLayout demo_prefixed_bytes"
  "zero_padding CpmmConfigInfoLayout demo_prefixed_bytes = demo_prefixed_bytes"
    apply (simp add: layout_widths demo_prefixed_bytes_def)
   apply (simp add: demo_prefixed_bytes_def CpmmConfigInfoLayout_def struct_def field_defs
      booleans_field_def canonical_scalar_def)
  apply (simp add: zero_padding_def layout_prefix layout_bodies)
  apply (simp add: demo_prefixed_bytes_def CpmmConfigInfoLayout_def struct_def field_defs
      replicate_add [symmetric])
  done

lemma demo_padded_bytes_facts:
  "length demo_padded_bytes = totalWidth CpmmConfigInfoLayout"
  "booleans_canonical CpmmConfigInfoLayout demo_padded_bytes"
  "zero_padding CpmmConfigInfoLayout demo_padded_bytes = demo_config_bytes"
    apply (simp add: layout_widths demo_padded_bytes_def)
   apply (simp add: demo_padded_bytes_def CpmmConfigInfoLayout_def struct_def field_defs
      booleans_field_def canonical_scalar_def)
  apply (simp add: zero_padding_def layout_prefix layout_bodies)
  apply (simp add: demo_padded_bytes_def demo_config_bytes_def CpmmConfigInfoLayout_def struct_def
      field_defs replicate_add [symmetric])
  done

text \<open>Decoding reads the bytes of the schema's width only, and nothing of a last field
  without a name.\<close>

lemma decode_fields_take:
  "decode_fields codec fs (take (totalWidth fs) bs) = decode_fields codec fs bs"
proof (induction fs arbitrary: bs)
  case Nil
  show ?case by simp
next
  case (Cons f fs)
  have "take (field_width f) (take (field_width f + totalWidth fs) bs) = take (field_width f) bs"
    by (simp add: min_def)
  moreover have "drop (field_width f) (take (field_width f + totalWidth fs) bs) =
      take (totalWidth fs) (drop (field_width f) bs)"
    by (simp add: drop_take)
  ultimately show ?case
    using Cons.IH [of "drop (field_width f) bs"]
    by (simp add: totalWidth_Cons Let_def split: option.splits)
qed

lemma decode_fields_unnamed_last:
  "field_name g = None \<Longrightarrow> decode_fields codec (fs @ [g]) bs = decode_fields codec fs bs"
  by (induction fs arbitrary: bs) (simp_all add: Let_def split: option.splits)

lemma decode_fields_agree:
  assumes "field_name g = None" and "take (totalWidth fs) bs = take (totalWidth fs) bs'"
  shows "decode_fields codec (fs @ [g]) bs = decode_fields codec (fs @ [g]) bs'"
  using decode_fields_take [of codec fs bs] decode_fields_take [of codec fs bs'] assms
  by (simp add: decode_fields_unnamed_last)

text \<open>
  C9 (as amended). For every schema whose field names are distinct, every codec that maps
  the text of 32 bytes back to them, and every buffer of the schema's total width whose
  boolean bytes are 0 or 1: decoding succeeds, and encoding the decoded record gives the
  buffer back byte for byte in the discriminator prefix and in every named field, and zeros
  in the padding fields (the fields without a name after the prefix). So the round trip
  reproduces the buffer exactly when its padding bytes are zero, and only then.
\<close>

theorem C9_roundtrip_up_to_padding:
  assumes "codec_inverts codec" and "distinct (names sch)"
    and "length buffer = totalWidth sch" and "booleans_canonical sch buffer"
  shows "\<exists>r. decode codec sch buffer = Inr r
     \<and> encode codec sch r = Some (zero_padding sch buffer)
     \<and> take (prefix_width sch) (zero_padding sch buffer) = take (prefix_width sch) buffer
     \<and> (encode codec sch r = Some buffer) = (zero_padding sch buffer = buffer)"
proof -
  let ?r = "\<lparr> discriminator = take (prefix_width sch) buffer,
             named_values = decode_fields codec (body sch) (drop (prefix_width sch) buffer) \<rparr>"
  have "prefix_width sch \<le> length buffer"
    using assms(3) prefix_body_width [of sch] by simp
  then have "take (prefix_width sch) (zero_padding sch buffer) = take (prefix_width sch) buffer"
    by (simp add: zero_padding_def min_def)
  with roundtrip_zero_padding [OF assms] show ?thesis
    by (intro exI [of _ ?r]) simp
qed

theorem C9_roundtrip_up_to_padding_witness:
  "(\<exists>r. decode plain_codec CpmmConfigInfoLayout demo_prefixed_bytes = Inr r
       \<and> encode plain_codec CpmmConfigInfoLayout r = Some demo_prefixed_bytes
       \<and> discriminator r = 1 # replicate 7 0)
   \<and> (\<exists>r. decode plain_codec CpmmPoolInfoLayout (replicate 637 0) = Inr r
       \<and> encode plain_codec CpmmPoolInfoLayout r = Some (replicate 637 0))"
proof
  have d: "take 8 demo_prefixed_bytes = 1 # replicate 7 0"
    by (simp add: demo_prefixed_bytes_def)
  from C9_roundtrip_up_to_padding [OF plain_codec_inverts layout_names(1)
      demo_prefixed_bytes_facts(1,2)]
  show "\<exists>r. decode plain_codec CpmmConfigInfoLayout demo_prefixed_bytes = Inr r
       \<and> encode plain_codec CpmmConfigInfoLayout r = Some demo_prefixed_bytes
       \<and> discriminator r = 1 # replicate 7 0"
    by (auto simp add: demo_prefixed_bytes_facts(3) decode_def layout_prefix d split: if_splits)
next
  have pool: "length (replicate 637 (0 :: byte)) = totalWidth CpmmPoolInfoLayout"
    "booleans_canonical CpmmPoolInfoLayout (replicate 637 0)"
    "zero_padding CpmmPoolInfoLayout (replicate 637 0) = replicate 637 0"
    using booleans_canonical_zero [of CpmmPoolInfoLayout] zero_padding_zero [of CpmmPoolInfoLayout]
    by (simp_all add: layout_widths)
  from C9_roundtrip_up_to_padding [OF plain_codec_inverts layout_names(2) pool(1,2)]
  show "\<exists>r. decode plain_codec CpmmPoolInfoLayout (replicate 637 0) = Inr r
       \<and> encode plain_codec CpmmPoolInfoLayout r = Some (replicate 637 0)"
    by (auto simp add: pool(3))
qed

text \<open>
  C9 as stated fails: a buffer of the total width of the pool-configuration layout with a
  nonzero byte in its reserved words decodes to the same record as the buffer in which these
  words are zero, so no encoding of the record can give back both; encoding it gives the
  latter, not the original bytes.
\<close>

theorem C9_padding_not_reproduced:
  "length demo_padded_bytes = totalWidth CpmmConfigInfoLayout
   \<and> decode plain_codec CpmmConfigInfoLayout demo_padded_bytes =
       Inr \<lparr> discriminator = take 8 demo_padded_bytes,
             named_values = decode_fields plain_codec (body CpmmConfigInfoLayout)
                              (drop 8 demo_padded_bytes) \<rparr>
   \<and> encode plain_codec CpmmConfigInfoLayout
       \<lparr> discriminator = take 8 demo_padded_bytes,
         named_values = decode_fields plain_codec (body CpmmConfigInfoLayout)
                          (drop 8 demo_padded_bytes) \<rparr> = Some demo_config_bytes
   \<and> demo_config_bytes \<noteq> demo_padded_bytes
   \<and> decode plain_codec CpmmConfigInfoLayout demo_padded_bytes =
       decode plain_codec CpmmConfigInfoLayout demo_config_bytes"
proof -
  note rt = roundtrip_zero_padding [OF plain_codec_inverts layout_names(1)
      demo_padded_bytes_facts(1,2), unfolded layout_prefix demo_padded_bytes_facts(3)]
  define fs where "fs = butlast (body CpmmConfigInfoLayout)"
  have fs: "body CpmmConfigInfoLayout = fs @ [seq (u64 None) 16 None]"
    and w: "totalWidth fs = 100"
    unfolding fs_def layout_bodies
    by (simp_all add: CpmmConfigInfoLayout_def struct_def totalWidth_def field_defs)
  have n: "field_name (seq (u64 None) 16 None) = None"
    by (simp add: seq_def)
  have "take 100 (drop 8 demo_padded_bytes) = take 100 (drop 8 demo_config_bytes)"
    by (simp add: demo_padded_bytes_def demo_config_bytes_def)
  with decode_fields_agree [OF n, of fs "drop 8 demo_padded_bytes" "drop 8 demo_config_bytes"
      plain_codec] fs w
  have same: "decode_fields plain_codec (body CpmmConfigInfoLayout) (drop 8 demo_padded_bytes) =
      decode_fields plain_codec (body CpmmConfigInfoLayout) (drop 8 demo_config_bytes)"
    by simp
  have pre: "take 8 demo_padded_bytes = take 8 demo_config_bytes"
    by (simp add: demo_padded_bytes_def demo_config_bytes_def)
  have len: "length demo_config_bytes = totalWidth CpmmConfigInfoLayout"
    by (simp add: layout_widths demo_config_bytes_def)
  have eq: "decode plain_codec CpmmConfigInfoLayout demo_padded_bytes =
       decode plain_codec CpmmConfigInfoLayout demo_config_bytes"
    using same pre len demo_padded_bytes_facts(1)
    by (simp add: decode_def layout_prefix)
  have ne: "demo_config_bytes \<noteq> demo_padded_bytes"
  proof
    assume "demo_config_bytes = demo_padded_bytes"
    then have "last demo_config_bytes = last demo_padded_bytes"
      by simp
    then show False
      by (simp add: demo_padded_bytes_def demo_config_bytes_def)
  qed
  from rt demo_padded_bytes_facts(1) ne eq show ?thesis
    by simp
qed

end
